theory Spec2Isabelle
  imports Main "HOL-Library.AList" "HOL-Library.Sublist"
begin

section \<open>Python values and the operations the extractor applies to them\<close>

text \<open>
  The trees returned by \<^verbatim>\<open>json.loads\<close>: \<^verbatim>\<open>None\<close>, booleans, integers, strings, lists and
  dictionaries. A dictionary is an association list that is read with \<open>map_of\<close> and written
  with \<open>AList.update\<close>, which replaces the value of a key in place and appends a new key, as
  a Python \<^verbatim>\<open>dict\<close> does. JSON numbers with a fraction are not modelled: no rule of the
  extractor looks inside a number. The values the parsers store (strings, numbers, nested
  records, lists of records) are of the same type. A Python string is modelled by the bytes
  of its UTF-8 encoding: comparing strings, testing a prefix or a substring, looking for an
  ASCII character and cutting at one give the same result on the bytes as on the code
  points; where the source works on code points (iterating a string, slicing it,
  \<^verbatim>\<open>strip\<close>) the model groups the bytes of each code point.
\<close>

datatype json =
    JNull
  | JBool bool
  | JNum int
  | JStr string
  | JArr "json list"
  | JObj "(string \<times> json) list"

type_synonym dict = "(string \<times> json) list"

text \<open>The exceptions that the operations below raise.\<close>

datatype pyexc = TypeError | AttributeError | KeyError | UnicodeEncodeError

text \<open>\<^verbatim>\<open>d.get(k, default)\<close>, \<^verbatim>\<open>k in d\<close> and \<^verbatim>\<open>d[k] = v\<close> on a value known to be a \<^verbatim>\<open>dict\<close>.\<close>

definition dict_get :: "dict \<Rightarrow> string \<Rightarrow> json \<Rightarrow> json" where
  "dict_get d k dflt = (case map_of d k of Some v \<Rightarrow> v | None \<Rightarrow> dflt)"

definition dict_has :: "dict \<Rightarrow> string \<Rightarrow> bool" where
  "dict_has d k = (map_of d k \<noteq> None)"

definition dict_set :: "dict \<Rightarrow> string \<Rightarrow> json \<Rightarrow> dict" where
  "dict_set d k v = AList.update k v d"

text \<open>\<^verbatim>\<open>s in t\<close> for two strings: \<open>s\<close> occurs in \<open>t\<close> as a contiguous run.\<close>

fun str_contains :: "string \<Rightarrow> string \<Rightarrow> bool" where
  "str_contains s [] = (s = [])"
| "str_contains s (c # cs) = (prefix s (c # cs) \<or> str_contains s cs)"

text \<open>
  The code points of a string: every byte that is not a continuation byte (\<^verbatim>\<open>10xxxxxx\<close>)
  starts a new group. \<open>utf8_take n\<close> is the slice \<^verbatim>\<open>s[:n]\<close>.
\<close>

definition is_continuation :: "char \<Rightarrow> bool" where
  "is_continuation c = (128 \<le> (of_char c :: nat) \<and> (of_char c :: nat) < 192)"

fun utf8_chars :: "string \<Rightarrow> string list" where
  "utf8_chars [] = []"
| "utf8_chars (c # cs) =
     (case utf8_chars cs of
        [] \<Rightarrow> [[c]]
      | w # ws \<Rightarrow>
          if w \<noteq> [] \<and> is_continuation (hd w) then (c # w) # ws else [c] # w # ws)"

definition utf8_take :: "nat \<Rightarrow> string \<Rightarrow> string" where
  "utf8_take n s = concat (take n (utf8_chars s))"

text \<open>
  \<^verbatim>\<open>v.get(k, default)\<close> on an arbitrary value: only a \<^verbatim>\<open>dict\<close> has the method, every other
  value raises \<^verbatim>\<open>AttributeError\<close>.
\<close>

fun py_get :: "json \<Rightarrow> string \<Rightarrow> json \<Rightarrow> pyexc + json" where
  "py_get (JObj d) k dflt = Inr (dict_get d k dflt)"
| "py_get _ k dflt = Inl AttributeError"

text \<open>
  \<^verbatim>\<open>k in v\<close> for a string \<open>k\<close>: key test on a \<^verbatim>\<open>dict\<close>, element test on a list, substring
  test on a string; \<^verbatim>\<open>None\<close>, booleans and numbers are not iterable.
\<close>

fun py_in :: "string \<Rightarrow> json \<Rightarrow> pyexc + bool" where
  "py_in k (JObj d) = Inr (dict_has d k)"
| "py_in k (JArr xs) = Inr (JStr k \<in> set xs)"
| "py_in k (JStr s) = Inr (str_contains k s)"
| "py_in k _ = Inl TypeError"

text \<open>
  \<^verbatim>\<open>for item in v\<close>: the elements of a list, the keys of a \<^verbatim>\<open>dict\<close>, the characters of a
  string; anything else raises \<^verbatim>\<open>TypeError\<close>.
\<close>

fun py_iter :: "json \<Rightarrow> pyexc + json list" where
  "py_iter (JArr xs) = Inr xs"
| "py_iter (JObj d) = Inr (map (\<lambda>kv. JStr (fst kv)) d)"
| "py_iter (JStr s) = Inr (map JStr (utf8_chars s))"
| "py_iter _ = Inl TypeError"

text \<open>Truth value of a Python object, as \<^verbatim>\<open>if v:\<close>, \<^verbatim>\<open>not v\<close> and \<^verbatim>\<open>a or b\<close> read it.\<close>

fun py_truthy :: "json \<Rightarrow> bool" where
  "py_truthy JNull = False"
| "py_truthy (JBool b) = b"
| "py_truthy (JNum n) = (n \<noteq> 0)"
| "py_truthy (JStr s) = (s \<noteq> [])"
| "py_truthy (JArr xs) = (xs \<noteq> [])"
| "py_truthy (JObj d) = (d \<noteq> [])"

text \<open>
  A block of statements working on the dictionary under construction. A statement returns
  the dictionary as it leaves it, and the exception that ended it, if any; the block stops
  at the first exception and keeps what was stored before.
\<close>

type_synonym stmt = "dict \<Rightarrow> dict \<times> pyexc option"

fun run_stmts :: "stmt list \<Rightarrow> stmt" where
  "run_stmts [] d = (d, None)"
| "run_stmts (s # ss) d =
     (case s d of (d', None) \<Rightarrow> run_stmts ss d' | (d', Some e) \<Rightarrow> (d', Some e))"

text \<open>
  Every \<^verbatim>\<open>try\<close> block ends with a \<^verbatim>\<open>print\<close> of one stored field. \<open>printable v\<close> says
  whether the output stream can encode the text that the f-string makes of the value \<open>v\<close>
  (a UTF-8 stream cannot encode a string holding a lone surrogate, which \<^verbatim>\<open>json.loads\<close>
  accepts); when it cannot, \<^verbatim>\<open>print\<close> raises \<^verbatim>\<open>UnicodeEncodeError\<close>. The fixed words of the
  messages and the default \<^verbatim>\<open>'Unknown'\<close>, printed when the field is missing, are taken to
  be printable. A \<^verbatim>\<open>print\<close> stores nothing: \<open>then_print\<close> runs it after the statements of
  the block, when these have not raised, and leaves the dictionary as they left it.
\<close>

definition print_field :: "(json \<Rightarrow> bool) \<Rightarrow> string \<Rightarrow> dict \<Rightarrow> pyexc option" where
  "print_field printable k d =
     (case map_of d k of
        None \<Rightarrow> None
      | Some v \<Rightarrow> if printable v then None else Some UnicodeEncodeError)"



section \<open>Entity parsers\<close>

subsection \<open>Profile\<close>

text \<open>Lines 149-152 and 188-191: the four fields read from the Person node.\<close>

definition profile_basic :: "dict \<Rightarrow> dict \<Rightarrow> dict" where
  "profile_basic node profile_data =
     (let d1 = dict_set profile_data ''name'' (dict_get node ''name'' (JStr ''''));
          d2 = dict_set d1 ''job_title'' (dict_get node ''jobTitle'' (JArr []));
          d3 = dict_set d2 ''description'' (dict_get node ''description'' (JStr ''''))
      in dict_set d3 ''url'' (dict_get node ''url'' (JStr '''')))"

text \<open>Lines 155-156 and 194-195.\<close>

definition profile_image :: "dict \<Rightarrow> dict \<Rightarrow> dict" where
  "profile_image node profile_data =
     (case map_of node ''image'' of
        Some (JObj img) \<Rightarrow>
          dict_set profile_data ''image_url'' (dict_get img ''contentUrl'' (JStr ''''))
      | _ \<Rightarrow> profile_data)"

text \<open>Lines 159-161 (graph branch only).\<close>

definition profile_address :: "dict \<Rightarrow> dict \<Rightarrow> dict" where
  "profile_address item profile_data =
     (case map_of item ''address'' of
        Some (JObj address) \<Rightarrow>
          dict_set
            (dict_set profile_data ''location'' (dict_get address ''addressLocality'' (JStr '''')))
            ''country'' (dict_get address ''addressCountry'' (JStr ''''))
      | _ \<Rightarrow> profile_data)"

text \<open>
  Lines 168-173: the record of one employer. The entries are evaluated in order, and
  \<^verbatim>\<open>work.get('member', {}).get(...)\<close> raises when \<^verbatim>\<open>member\<close> is present and not a \<^verbatim>\<open>dict\<close>.
\<close>

definition work_info :: "dict \<Rightarrow> pyexc + json" where
  "work_info work =
     (case py_get (dict_get work ''member'' (JObj [])) ''description'' (JStr '''') of
        Inl e \<Rightarrow> Inl e
      | Inr descr \<Rightarrow>
          (case py_get (dict_get work ''member'' (JObj [])) ''startDate'' (JStr '''') of
             Inl e \<Rightarrow> Inl e
           | Inr start \<Rightarrow>
               Inr (JObj [(''company_name'', dict_get work ''name'' (JStr '''')),
                          (''company_url'', dict_get work ''url'' (JStr '''')),
                          (''description'', descr),
                          (''start_date'', start)])))"

text \<open>Lines 165-174: the loop over \<^verbatim>\<open>item['worksFor']\<close>, skipping entries that are no \<^verbatim>\<open>dict\<close>.\<close>

fun works_for_loop :: "json list \<Rightarrow> json list \<Rightarrow> pyexc + json list" where
  "works_for_loop [] works_for = Inr works_for"
| "works_for_loop (JObj work # rest) works_for =
     (case work_info work of
        Inl e \<Rightarrow> Inl e
      | Inr info \<Rightarrow> works_for_loop rest (works_for @ [info]))"
| "works_for_loop (_ # rest) works_for = works_for_loop rest works_for"

text \<open>Lines 164-175 (graph branch only).\<close>

definition profile_works_for :: "dict \<Rightarrow> stmt" where
  "profile_works_for item profile_data =
     (case map_of item ''worksFor'' of
        Some (JArr works) \<Rightarrow>
          (case works_for_loop works [] of
             Inl e \<Rightarrow> (profile_data, Some e)
           | Inr works_for \<Rightarrow> (dict_set profile_data ''works_for'' (JArr works_for), None))
      | _ \<Rightarrow> (profile_data, None))"

text \<open>Lines 178-182 and 198-202.\<close>

definition profile_followers :: "dict \<Rightarrow> dict \<Rightarrow> dict" where
  "profile_followers node profile_data =
     (case map_of node ''interactionStatistic'' of
        Some (JObj interaction) \<Rightarrow>
          if dict_get interaction ''interactionType'' JNull
               = JStr ''https://schema.org/FollowAction''
          then dict_set profile_data ''followers''
                 (dict_get interaction ''userInteractionCount'' (JNum 0))
          else profile_data
      | _ \<Rightarrow> profile_data)"

text \<open>Lines 149-182: the body run for the Person node found in the graph.\<close>

definition profile_graph_item :: "dict \<Rightarrow> stmt" where
  "profile_graph_item item =
     run_stmts
       [\<lambda>pd. (profile_basic item pd, None),
        \<lambda>pd. (profile_image item pd, None),
        \<lambda>pd. (profile_address item pd, None),
        profile_works_for item,
        \<lambda>pd. (profile_followers item pd, None)]"

text \<open>
  Lines 147-184: the scan of \<^verbatim>\<open>json_data['@graph']\<close>. \<^verbatim>\<open>item.get('@type')\<close> raises on an
  item that is no \<^verbatim>\<open>dict\<close>; the first Person item is parsed and ends the loop.
\<close>

fun profile_graph_loop :: "json list \<Rightarrow> stmt" where
  "profile_graph_loop [] profile_data = (profile_data, None)"
| "profile_graph_loop (JObj item # rest) profile_data =
     (if dict_get item ''@type'' JNull = JStr ''Person''
      then profile_graph_item item profile_data
      else profile_graph_loop rest profile_data)"
| "profile_graph_loop (_ # rest) profile_data = (profile_data, Some AttributeError)"

text \<open>Lines 188-202: the body run for a direct Person node.\<close>

definition profile_direct :: "dict \<Rightarrow> dict \<Rightarrow> dict" where
  "profile_direct json_data profile_data =
     profile_followers json_data (profile_image json_data (profile_basic json_data profile_data))"

text \<open>
  Lines 144-202, the statements of the \<^verbatim>\<open>try\<close> block before its \<^verbatim>\<open>print\<close>: the dictionary
  when they end and the exception that ended them. On a list or a string, \<^verbatim>\<open>'@graph' in json_data\<close> is an element or substring
  test; when it holds, \<^verbatim>\<open>json_data['@graph']\<close> raises \<^verbatim>\<open>TypeError\<close>, otherwise
  \<^verbatim>\<open>json_data.get\<close> raises \<^verbatim>\<open>AttributeError\<close>. On \<^verbatim>\<open>None\<close>, a boolean or a number the test
  itself raises \<^verbatim>\<open>TypeError\<close>.
\<close>

fun parse_profile_stmts :: "json \<Rightarrow> dict \<times> pyexc option" where
  "parse_profile_stmts (JObj json_data) =
     (if dict_has json_data ''@graph''
      then (case py_iter (dict_get json_data ''@graph'' JNull) of
              Inl e \<Rightarrow> ([], Some e)
            | Inr items \<Rightarrow> profile_graph_loop items [])
      else if dict_get json_data ''@type'' JNull = JStr ''Person''
      then (profile_direct json_data [], None)
      else ([], None))"
| "parse_profile_stmts (JArr xs) =
     (if JStr ''@graph'' \<in> set xs then ([], Some TypeError) else ([], Some AttributeError))"
| "parse_profile_stmts (JStr s) =
     (if str_contains ''@graph'' s then ([], Some TypeError) else ([], Some AttributeError))"
| "parse_profile_stmts _ = ([], Some TypeError)"


text \<open>
  Lines 140-209: \<^verbatim>\<open>except Exception\<close> prints the exception, and the function returns
  \<^verbatim>\<open>profile_data\<close> as the \<^verbatim>\<open>try\<close> block left it, which is as its statements left it: the
  \<^verbatim>\<open>print\<close> stores nothing.
\<close>

definition parse_profile_json_ld :: "json \<Rightarrow> dict" where
  "parse_profile_json_ld json_data = fst (parse_profile_stmts json_data)"


subsection \<open>Company\<close>

text \<open>Lines 220-223 and 247-250.\<close>

definition company_basic :: "dict \<Rightarrow> dict \<Rightarrow> dict" where
  "company_basic node company_data =
     (let d1 = dict_set company_data ''name'' (dict_get node ''name'' (JStr ''''));
          d2 = dict_set d1 ''description'' (dict_get node ''description'' (JStr ''''));
          d3 = dict_set d2 ''url'' (dict_get node ''url'' (JStr ''''))
      in dict_set d3 ''slogan'' (dict_get node ''slogan'' (JStr '''')))"

text \<open>Lines 226-227 and 253-254.\<close>

definition company_logo :: "dict \<Rightarrow> dict \<Rightarrow> dict" where
  "company_logo node company_data =
     (case map_of node ''logo'' of
        Some (JObj logo) \<Rightarrow>
          dict_set company_data ''logo_url'' (dict_get logo ''contentUrl'' (JStr ''''))
      | _ \<Rightarrow> company_data)"

text \<open>Lines 230-237 (graph branch only).\<close>

definition company_address :: "dict \<Rightarrow> dict \<Rightarrow> dict" where
  "company_address item company_data =
     (case map_of item ''address'' of
        Some (JObj address) \<Rightarrow>
          dict_set company_data ''address''
            (JObj [(''street'', dict_get address ''streetAddress'' (JStr '''')),
                   (''city'', dict_get address ''addressLocality'' (JStr '''')),
                   (''region'', dict_get address ''addressRegion'' (JStr '''')),
                   (''postal_code'', dict_get address ''postalCode'' (JStr '''')),
                   (''country'', dict_get address ''addressCountry'' (JStr ''''))])
      | _ \<Rightarrow> company_data)"

text \<open>Lines 240-241 and 257-258.\<close>

definition company_employees :: "dict \<Rightarrow> dict \<Rightarrow> dict" where
  "company_employees node company_data =
     (case map_of node ''numberOfEmployees'' of
        Some (JObj employees) \<Rightarrow>
          dict_set company_data ''employee_count'' (dict_get employees ''value'' (JNum 0))
      | _ \<Rightarrow> company_data)"

text \<open>Lines 220-241: the body run for the Organization node found in the graph.\<close>

definition company_graph_item :: "dict \<Rightarrow> dict \<Rightarrow> dict" where
  "company_graph_item item company_data =
     company_employees item
       (company_address item (company_logo item (company_basic item company_data)))"

text \<open>Lines 218-243.\<close>

fun company_graph_loop :: "json list \<Rightarrow> stmt" where
  "company_graph_loop [] company_data = (company_data, None)"
| "company_graph_loop (JObj item # rest) company_data =
     (if dict_get item ''@type'' JNull = JStr ''Organization''
      then (company_graph_item item company_data, None)
      else company_graph_loop rest company_data)"
| "company_graph_loop (_ # rest) company_data = (company_data, Some AttributeError)"

text \<open>Lines 247-258: the body run for a direct Organization node.\<close>

definition company_direct :: "dict \<Rightarrow> dict \<Rightarrow> dict" where
  "company_direct json_data company_data =
     company_employees json_data (company_logo json_data (company_basic json_data company_data))"

text \<open>Lines 215-258, the statements of the \<^verbatim>\<open>try\<close> block before its \<^verbatim>\<open>print\<close>.\<close>

fun parse_company_stmts :: "json \<Rightarrow> dict \<times> pyexc option" where
  "parse_company_stmts (JObj json_data) =
     (if dict_has json_data ''@graph''
      then (case py_iter (dict_get json_data ''@graph'' JNull) of
              Inl e \<Rightarrow> ([], Some e)
            | Inr items \<Rightarrow> company_graph_loop items [])
      else if dict_get json_data ''@type'' JNull = JStr ''Organization''
      then (company_direct json_data [], None)
      else ([], None))"
| "parse_company_stmts (JArr xs) =
     (if JStr ''@graph'' \<in> set xs then ([], Some TypeError) else ([], Some AttributeError))"
| "parse_company_stmts (JStr s) =
     (if str_contains ''@graph'' s then ([], Some TypeError) else ([], Some AttributeError))"
| "parse_company_stmts _ = ([], Some TypeError)"


text \<open>Lines 211-265: the function returns \<^verbatim>\<open>company_data\<close> as the statements left it.\<close>

definition parse_company_json_ld :: "json \<Rightarrow> dict" where
  "parse_company_json_ld json_data = fst (parse_company_stmts json_data)"


subsection \<open>Post\<close>

text \<open>Lines 273-277.\<close>

definition post_basic :: "dict \<Rightarrow> dict \<Rightarrow> dict" where
  "post_basic json_data post_data =
     (let d1 = dict_set post_data ''headline'' (dict_get json_data ''headline'' (JStr ''''));
          d2 = dict_set d1 ''article_body'' (dict_get json_data ''articleBody'' (JStr ''''));
          d3 = dict_set d2 ''date_published'' (dict_get json_data ''datePublished'' (JStr ''''));
          d4 = dict_set d3 ''url'' (dict_get json_data ''@id'' (JStr ''''))
      in dict_set d4 ''comment_count'' (dict_get json_data ''commentCount'' (JNum 0)))"

text \<open>
  Lines 289-292: the follower count of the post's author, read when the interaction type
  equals the string written in the source.
\<close>

definition post_author_followers :: "dict \<Rightarrow> dict \<Rightarrow> dict" where
  "post_author_followers author post_data =
     (case map_of author ''interactionStatistic'' of
        Some (JObj interaction) \<Rightarrow>
          if dict_get interaction ''interactionType'' JNull
               = JStr ''http://schema.org/FollowAction''
          then dict_set post_data ''author_followers''
                 (dict_get interaction ''userInteractionCount'' (JNum 0))
          else post_data
      | _ \<Rightarrow> post_data)"

text \<open>
  Lines 280-292. \<^verbatim>\<open>author.get('image', {}).get('url', '')\<close> raises when \<^verbatim>\<open>image\<close> is
  present and not a \<^verbatim>\<open>dict\<close>, before \<^verbatim>\<open>post_data['author']\<close> is stored.
\<close>

definition post_author :: "dict \<Rightarrow> stmt" where
  "post_author json_data post_data =
     (case map_of json_data ''author'' of
        Some (JObj author) \<Rightarrow>
          (case (if dict_has author ''image''
                 then py_get (dict_get author ''image'' (JObj [])) ''url'' (JStr '''')
                 else Inr (JStr '''')) of
             Inl e \<Rightarrow> (post_data, Some e)
           | Inr image_url \<Rightarrow>
               (post_author_followers author
                  (dict_set post_data ''author''
                     (JObj [(''name'', dict_get author ''name'' (JStr '''')),
                            (''url'', dict_get author ''url'' (JStr '''')),
                            (''image_url'', image_url)])),
                None))
      | _ \<Rightarrow> (post_data, None))"

text \<open>Lines 299-304: the record of one comment; both chained \<^verbatim>\<open>.get\<close> calls can raise.\<close>

definition comment_data :: "dict \<Rightarrow> pyexc + json" where
  "comment_data comment =
     (case py_get (dict_get comment ''author'' (JObj [])) ''name'' (JStr '''') of
        Inl e \<Rightarrow> Inl e
      | Inr author_name \<Rightarrow>
          (case py_get (dict_get comment ''interactionStatistic'' (JObj []))
                  ''userInteractionCount'' (JNum 0) of
             Inl e \<Rightarrow> Inl e
           | Inr likes \<Rightarrow>
               Inr (JObj [(''text'', dict_get comment ''text'' (JStr '''')),
                          (''date_published'', dict_get comment ''datePublished'' (JStr '''')),
                          (''author_name'', author_name),
                          (''likes'', likes)])))"

text \<open>Lines 296-305.\<close>

fun comments_loop :: "json list \<Rightarrow> json list \<Rightarrow> pyexc + json list" where
  "comments_loop [] comments = Inr comments"
| "comments_loop (JObj comment # rest) comments =
     (case comment_data comment of
        Inl e \<Rightarrow> Inl e
      | Inr c \<Rightarrow> comments_loop rest (comments @ [c]))"
| "comments_loop (_ # rest) comments = comments_loop rest comments"

text \<open>Lines 295-306.\<close>

definition post_comments :: "dict \<Rightarrow> stmt" where
  "post_comments json_data post_data =
     (case map_of json_data ''comment'' of
        Some (JArr cs) \<Rightarrow>
          (case comments_loop cs [] of
             Inl e \<Rightarrow> (post_data, Some e)
           | Inr comments \<Rightarrow> (dict_set post_data ''comments'' (JArr comments), None))
      | _ \<Rightarrow> (post_data, None))"

text \<open>
  Lines 310-316 and 358-364: the loop over a list of interaction statistics. The test
  \<^verbatim>\<open>'LikeAction' in interaction_type\<close> raises when the type is \<^verbatim>\<open>None\<close>, a boolean or a
  number; what earlier entries stored stays.
\<close>

fun interaction_loop :: "json list \<Rightarrow> stmt" where
  "interaction_loop [] d = (d, None)"
| "interaction_loop (JObj interaction # rest) d =
     (case py_in ''LikeAction'' (dict_get interaction ''interactionType'' (JStr '''')) of
        Inl e \<Rightarrow> (d, Some e)
      | Inr is_like \<Rightarrow>
          if is_like
          then interaction_loop rest
                 (dict_set d ''likes'' (dict_get interaction ''userInteractionCount'' (JNum 0)))
          else (case py_in ''CommentAction''
                       (dict_get interaction ''interactionType'' (JStr '''')) of
                  Inl e \<Rightarrow> (d, Some e)
                | Inr is_comment \<Rightarrow>
                    if is_comment
                    then interaction_loop rest
                           (dict_set d ''comments_count''
                              (dict_get interaction ''userInteractionCount'' (JNum 0)))
                    else interaction_loop rest d))"
| "interaction_loop (_ # rest) d = interaction_loop rest d"

text \<open>Lines 309-316 and 357-364.\<close>

definition interaction_statistics :: "dict \<Rightarrow> stmt" where
  "interaction_statistics json_data d =
     (case map_of json_data ''interactionStatistic'' of
        Some (JArr stats) \<Rightarrow> interaction_loop stats d
      | _ \<Rightarrow> (d, None))"

text \<open>
  Lines 272-316, the statements of the \<^verbatim>\<open>try\<close> block before its \<^verbatim>\<open>print\<close>;
  \<^verbatim>\<open>json_data.get\<close> raises on anything but a \<^verbatim>\<open>dict\<close>.
\<close>

fun parse_post_stmts :: "json \<Rightarrow> dict \<times> pyexc option" where
  "parse_post_stmts (JObj json_data) =
     (if dict_get json_data ''@type'' JNull = JStr ''DiscussionForumPosting''
      then run_stmts
             [\<lambda>pd. (post_basic json_data pd, None),
              post_author json_data,
              post_comments json_data,
              interaction_statistics json_data] []
      else ([], None))"
| "parse_post_stmts _ = ([], Some AttributeError)"

text \<open>
  Line 318: \<^verbatim>\<open>post_data.get('headline', 'Unknown')[:50]\<close> slices a string or a list and raises
  on any other value (on a \<^verbatim>\<open>dict\<close> the exception is a \<^verbatim>\<open>TypeError\<close> or, in later versions
  of Python, a \<^verbatim>\<open>KeyError\<close>; \<^verbatim>\<open>except Exception\<close> catches both); the slice is then printed.
\<close>

definition post_print :: "(json \<Rightarrow> bool) \<Rightarrow> dict \<Rightarrow> pyexc option" where
  "post_print printable post_data =
     (case map_of post_data ''headline'' of
        None \<Rightarrow> None
      | Some (JStr s) \<Rightarrow>
          if printable (JStr (utf8_take 50 s)) then None else Some UnicodeEncodeError
      | Some (JArr xs) \<Rightarrow>
          if printable (JArr (take 50 xs)) then None else Some UnicodeEncodeError
      | Some _ \<Rightarrow> Some TypeError)"


text \<open>Lines 267-323: the function returns \<^verbatim>\<open>post_data\<close> as the statements left it.\<close>

definition parse_post_json_ld :: "json \<Rightarrow> dict" where
  "parse_post_json_ld json_data = fst (parse_post_stmts json_data)"


subsection \<open>Newsletter\<close>

text \<open>Lines 331-336.\<close>

definition newsletter_basic :: "dict \<Rightarrow> dict \<Rightarrow> dict" where
  "newsletter_basic json_data newsletter_data =
     (let d1 = dict_set newsletter_data ''headline'' (dict_get json_data ''headline'' (JStr ''''));
          d2 = dict_set d1 ''name'' (dict_get json_data ''name'' (JStr ''''));
          d3 = dict_set d2 ''url'' (dict_get json_data ''url'' (JStr ''''));
          d4 = dict_set d3 ''date_published'' (dict_get json_data ''datePublished'' (JStr ''''));
          d5 = dict_set d4 ''date_modified'' (dict_get json_data ''dateModified'' (JStr ''''))
      in dict_set d5 ''comment_count'' (dict_get json_data ''commentCount'' (JNum 0)))"

text \<open>Lines 339-340.\<close>

definition newsletter_image :: "dict \<Rightarrow> dict \<Rightarrow> dict" where
  "newsletter_image json_data newsletter_data =
     (case map_of json_data ''image'' of
        Some (JObj img) \<Rightarrow>
          dict_set newsletter_data ''image_url'' (dict_get img ''url'' (JStr ''''))
      | _ \<Rightarrow> newsletter_data)"

text \<open>Lines 351-354.\<close>

definition newsletter_author_followers :: "dict \<Rightarrow> dict \<Rightarrow> dict" where
  "newsletter_author_followers author newsletter_data =
     (case map_of author ''interactionStatistic'' of
        Some (JObj interaction) \<Rightarrow>
          if dict_get interaction ''interactionType'' JNull
               = JStr ''https://schema.org/FollowAction''
          then dict_set newsletter_data ''author_followers''
                 (dict_get interaction ''userInteractionCount'' (JNum 0))
          else newsletter_data
      | _ \<Rightarrow> newsletter_data)"

text \<open>Lines 343-354.\<close>

definition newsletter_author :: "dict \<Rightarrow> dict \<Rightarrow> dict" where
  "newsletter_author json_data newsletter_data =
     (case map_of json_data ''author'' of
        Some (JObj author) \<Rightarrow>
          newsletter_author_followers author
            (dict_set newsletter_data ''author''
               (JObj [(''name'', dict_get author ''name'' (JStr '''')),
                      (''url'', dict_get author ''url'' (JStr ''''))]))
      | _ \<Rightarrow> newsletter_data)"

text \<open>Lines 329-364, the statements of the \<^verbatim>\<open>try\<close> block before its \<^verbatim>\<open>print\<close>.\<close>

fun parse_newsletter_stmts :: "json \<Rightarrow> dict \<times> pyexc option" where
  "parse_newsletter_stmts (JObj json_data) =
     (if dict_get json_data ''@type'' JNull = JStr ''Article''
      then run_stmts
             [\<lambda>nd. (newsletter_basic json_data nd, None),
              \<lambda>nd. (newsletter_image json_data nd, None),
              \<lambda>nd. (newsletter_author json_data nd, None),
              interaction_statistics json_data] []
      else ([], None))"
| "parse_newsletter_stmts _ = ([], Some AttributeError)"


text \<open>Lines 325-371: the function returns \<^verbatim>\<open>newsletter_data\<close> as the statements left it.\<close>

definition parse_newsletter_json_ld :: "json \<Rightarrow> dict" where
  "parse_newsletter_json_ld json_data = fst (parse_newsletter_stmts json_data)"


subsection \<open>Generic\<close>

text \<open>Lines 383-385: the common fields copied when present.\<close>

fun generic_common :: "string list \<Rightarrow> dict \<Rightarrow> dict \<Rightarrow> dict" where
  "generic_common [] json_data generic_data = generic_data"
| "generic_common (key # keys) json_data generic_data =
     generic_common keys json_data
       (case map_of json_data key of
          Some v \<Rightarrow> dict_set generic_data key v
        | None \<Rightarrow> generic_data)"

text \<open>
  Lines 388-392. \<^verbatim>\<open>a or b\<close> is \<open>a\<close> when \<open>a\<close> is truthy and \<open>b\<close> otherwise;
  \<^verbatim>\<open>image.get('contentUrl')\<close> is \<^verbatim>\<open>None\<close> when the key is missing.
\<close>

definition generic_image :: "dict \<Rightarrow> dict \<Rightarrow> dict" where
  "generic_image json_data generic_data =
     (case map_of json_data ''image'' of
        Some (JObj img) \<Rightarrow>
          dict_set generic_data ''image_url''
            (if py_truthy (dict_get img ''contentUrl'' JNull)
             then dict_get img ''contentUrl'' JNull
             else dict_get img ''url'' (JStr ''''))
      | Some (JStr s) \<Rightarrow> dict_set generic_data ''image_url'' (JStr s)
      | _ \<Rightarrow> generic_data)"

text \<open>Lines 377-392, the statements of the \<^verbatim>\<open>try\<close> block before its \<^verbatim>\<open>print\<close>.\<close>

fun parse_generic_stmts :: "json \<Rightarrow> dict \<times> pyexc option" where
  "parse_generic_stmts (JObj json_data) =
     (let d1 = dict_set [] ''type'' (dict_get json_data ''@type'' (JStr ''''));
          d2 = dict_set d1 ''context'' (dict_get json_data ''@context'' (JStr ''''));
          d3 = dict_set d2 ''id'' (dict_get json_data ''@id'' (JStr ''''));
          d4 = generic_common [''name'', ''description'', ''url'', ''headline'', ''datePublished'']
                 json_data d3
      in (generic_image json_data d4, None))"
| "parse_generic_stmts _ = ([], Some AttributeError)"


text \<open>Lines 373-399: the function returns \<^verbatim>\<open>generic_data\<close> as the statements left it.\<close>

definition parse_generic_json_ld :: "json \<Rightarrow> dict" where
  "parse_generic_json_ld json_data = fst (parse_generic_stmts json_data)"


section \<open>Structured-data extractor\<close>

text \<open>
  What the HTML parser hands to the extractor: for every \<^verbatim>\<open>script\<close> element of type
  \<^verbatim>\<open>application/ld+json\<close> its \<^verbatim>\<open>.string\<close> (\<^verbatim>\<open>None\<close> when the element has no single text
  child), the attributes of every \<^verbatim>\<open>meta\<close> element, and the text of the \<^verbatim>\<open>title\<close> element
  when there is one.
\<close>

record meta_tag =
  name_attr :: "string option"
  property_attr :: "string option"
  content_attr :: "string option"

record html_document =
  ld_json_scripts :: "string option list"
  meta_tags :: "meta_tag list"
  title_tag :: "string option"

text \<open>Lines 86-91: the dictionary \<^verbatim>\<open>json_ld_data\<close>.\<close>

record json_ld_result =
  found :: bool
  raw_json :: "json option"
  parsed_data :: dict
  data_type :: "string option"

definition json_ld_init :: json_ld_result where
  "json_ld_init = \<lparr>found = False, raw_json = None, parsed_data = [], data_type = None\<rparr>"

text \<open>Lines 111-125: the parser chosen by the URL type, and the data type recorded with it.\<close>

definition parse_by_url_type :: "string \<Rightarrow> json \<Rightarrow> dict \<times> string" where
  "parse_by_url_type url_type json_data =
     (if url_type = ''profile'' then (parse_profile_json_ld json_data, ''profile'')
      else if url_type = ''company'' then (parse_company_json_ld json_data, ''company'')
      else if url_type = ''post'' then (parse_post_json_ld json_data, ''post'')
      else if url_type = ''newsletter'' then (parse_newsletter_json_ld json_data, ''newsletter'')
      else (parse_generic_json_ld json_data, ''generic''))"

text \<open>
  What \<^verbatim>\<open>json.loads\<close> does with a text: it returns a tree, raises \<^verbatim>\<open>JSONDecodeError\<close>, or
  raises another exception (\<^verbatim>\<open>ValueError\<close> for an integer of more than 4300 digits,
  \<^verbatim>\<open>RecursionError\<close> for a nesting that is too deep).
\<close>

datatype loads_result = Loaded json | JSONDecodeError | OtherError

text \<open>
  Lines 103-133: the loop over the scripts; \<open>loads\<close> stands for \<^verbatim>\<open>json.loads\<close>. A script
  without text is passed over; a script whose text raises \<^verbatim>\<open>JSONDecodeError\<close> is passed
  over (\<^verbatim>\<open>continue\<close>); the first script whose text parses is recorded and parsed, and ends
  the loop (\<^verbatim>\<open>break\<close>). Any other exception of \<^verbatim>\<open>json.loads\<close> leaves the loop for the
  \<^verbatim>\<open>except Exception\<close> of line 135, and the dictionary is returned as it is then. The parsers
  catch their own exceptions; the \<^verbatim>\<open>print\<close> of line 128 comes after the last assignment, so
  an exception raised there ends the loop with the same dictionary as \<^verbatim>\<open>break\<close> does.
\<close>

fun scripts_loop ::
  "(string \<Rightarrow> loads_result) \<Rightarrow> string \<Rightarrow> string option list \<Rightarrow> json_ld_result
     \<Rightarrow> json_ld_result"
where
  "scripts_loop loads url_type [] jl = jl"
| "scripts_loop loads url_type (None # rest) jl = scripts_loop loads url_type rest jl"
| "scripts_loop loads url_type (Some text # rest) jl =
     (if text = [] then scripts_loop loads url_type rest jl
      else (case loads text of
              JSONDecodeError \<Rightarrow> scripts_loop loads url_type rest jl
            | OtherError \<Rightarrow> jl
            | Loaded json_data \<Rightarrow>
                jl\<lparr>raw_json := Some json_data,
                   found := True,
                   data_type := Some (snd (parse_by_url_type url_type json_data)),
                   parsed_data := fst (parse_by_url_type url_type json_data)\<rparr>))"

text \<open>Lines 82-138.\<close>

definition extract_json_ld_data ::
  "(string \<Rightarrow> loads_result) \<Rightarrow> html_document \<Rightarrow> string \<Rightarrow> json_ld_result"
where
  "extract_json_ld_data loads html url_type =
     (if ld_json_scripts html = [] then json_ld_init
      else scripts_loop loads url_type (ld_json_scripts html) json_ld_init)"


section \<open>Meta-tag extractor\<close>

text \<open>Lines 406-412: the dictionary \<^verbatim>\<open>meta_data\<close>; attribute values are strings.\<close>

record meta_result =
  open_graph :: "(string \<times> string) list"
  twitter :: "(string \<times> string) list"
  other_meta :: "(string \<times> string) list"
  title :: string
  description :: string

text \<open>Line 417: \<^verbatim>\<open>meta.get('name') or meta.get('property')\<close>.\<close>

definition meta_name :: "meta_tag \<Rightarrow> string option" where
  "meta_name meta =
     (case name_attr meta of
        Some n \<Rightarrow> if n \<noteq> [] then Some n else property_attr meta
      | None \<Rightarrow> property_attr meta)"

text \<open>
  Lines 417-426, the body of the loop: \<^verbatim>\<open>if name and content\<close> lets an entry through when
  both are present and not the empty string.
\<close>

definition meta_step :: "meta_tag \<Rightarrow> meta_result \<Rightarrow> meta_result" where
  "meta_step meta md =
     (case (meta_name meta, content_attr meta) of
        (Some n, Some c) \<Rightarrow>
          if n \<noteq> [] \<and> c \<noteq> []
          then (if prefix ''og:'' n then md\<lparr>open_graph := AList.update n c (open_graph md)\<rparr>
                else if prefix ''twitter:'' n then md\<lparr>twitter := AList.update n c (twitter md)\<rparr>
                else md\<lparr>other_meta := AList.update n c (other_meta md)\<rparr>)
          else md
      | _ \<Rightarrow> md)"

text \<open>Lines 415-426.\<close>

fun meta_loop :: "meta_tag list \<Rightarrow> meta_result \<Rightarrow> meta_result" where
  "meta_loop [] md = md"
| "meta_loop (meta # rest) md = meta_loop rest (meta_step meta md)"

text \<open>
  Lines 434-436: the first \<^verbatim>\<open>meta\<close> element named \<^verbatim>\<open>description\<close>, and its content or the
  empty string.
\<close>

definition description_tag :: "meta_tag list \<Rightarrow> meta_tag option" where
  "description_tag metas = find (\<lambda>m. name_attr m = Some ''description'') metas"

text \<open>Lines 401-440.\<close>

definition extract_meta_data :: "html_document \<Rightarrow> meta_result" where
  "extract_meta_data html =
     (let md = meta_loop (meta_tags html)
                 \<lparr>open_graph = [], twitter = [], other_meta = [], title = [], description = []\<rparr>;
          md1 = (case title_tag html of Some t \<Rightarrow> md\<lparr>title := t\<rparr> | None \<Rightarrow> md)
      in (case description_tag (meta_tags html) of
            Some m \<Rightarrow> md1\<lparr>description := (case content_attr m of Some c \<Rightarrow> c | None \<Rightarrow> [])\<rparr>
          | None \<Rightarrow> md1))"


section \<open>Reconciler\<close>

text \<open>\<^verbatim>\<open>d.get(k, '')\<close> on a bucket of strings, as a value of the combined record.\<close>

definition bucket_get :: "(string \<times> string) list \<Rightarrow> string \<Rightarrow> json" where
  "bucket_get d k = JStr (case map_of d k of Some v \<Rightarrow> v | None \<Rightarrow> [])"

text \<open>\<^verbatim>\<open>d.update(e)\<close>: every entry of \<open>e\<close> is stored in \<open>d\<close>, in order.\<close>

definition dict_update :: "dict \<Rightarrow> dict \<Rightarrow> dict" where
  "dict_update d e = fold (\<lambda>kv acc. dict_set acc (fst kv) (snd kv)) e d"

text \<open>Lines 447-448.\<close>

definition seed_json_ld :: "json_ld_result \<Rightarrow> dict" where
  "seed_json_ld jl = (if found jl then dict_update [] (parsed_data jl) else [])"

text \<open>Lines 453-459.\<close>

definition add_open_graph :: "meta_result \<Rightarrow> dict \<Rightarrow> dict" where
  "add_open_graph md combined_data =
     (let og_data = open_graph md in
      if og_data \<noteq> []
      then (let d1 = dict_set combined_data ''og_title'' (bucket_get og_data ''og:title'');
                d2 = dict_set d1 ''og_description'' (bucket_get og_data ''og:description'');
                d3 = dict_set d2 ''og_image'' (bucket_get og_data ''og:image'');
                d4 = dict_set d3 ''og_url'' (bucket_get og_data ''og:url'')
            in dict_set d4 ''og_type'' (bucket_get og_data ''og:type''))
      else combined_data)"

text \<open>Lines 462-466.\<close>

definition add_twitter :: "meta_result \<Rightarrow> dict \<Rightarrow> dict" where
  "add_twitter md combined_data =
     (let twitter_data = twitter md in
      if twitter_data \<noteq> []
      then (let d1 = dict_set combined_data ''twitter_title''
                       (bucket_get twitter_data ''twitter:title'');
                d2 = dict_set d1 ''twitter_description''
                       (bucket_get twitter_data ''twitter:description'')
            in dict_set d2 ''twitter_image'' (bucket_get twitter_data ''twitter:image''))
      else combined_data)"

text \<open>Lines 469-470.\<close>

definition add_page :: "meta_result \<Rightarrow> dict \<Rightarrow> dict" where
  "add_page md combined_data =
     dict_set (dict_set combined_data ''page_title'' (JStr (title md)))
       ''page_description'' (JStr (description md))"

text \<open>
  \<^verbatim>\<open>s.strip()\<close> removes from both ends the code points for which \<^verbatim>\<open>str.isspace\<close> holds:
  U+0009 to U+000D, U+001C to U+0020, U+0085, U+00A0, U+1680, U+2000 to U+200A, U+2028,
  U+2029, U+202F, U+205F and U+3000. \<open>unicode_spaces\<close> lists their UTF-8 encodings;
  \<open>space_at ws s\<close> is the length of the one that starts \<open>s\<close>, or 0.
\<close>

definition unicode_spaces :: "string list" where
  "unicode_spaces =
     map (\<lambda>c. [c])
       [CHR 0x09, CHR 0x0A, CHR 0x0B, CHR 0x0C, CHR 0x0D,
        CHR 0x1C, CHR 0x1D, CHR 0x1E, CHR 0x1F, CHR 0x20] @
     [[CHR 0xC2, CHR 0x85], [CHR 0xC2, CHR 0xA0], [CHR 0xE1, CHR 0x9A, CHR 0x80]] @
     map (\<lambda>c. [CHR 0xE2, CHR 0x80, c])
       [CHR 0x80, CHR 0x81, CHR 0x82, CHR 0x83, CHR 0x84, CHR 0x85, CHR 0x86, CHR 0x87,
        CHR 0x88, CHR 0x89, CHR 0x8A, CHR 0xA8, CHR 0xA9, CHR 0xAF] @
     [[CHR 0xE2, CHR 0x81, CHR 0x9F], [CHR 0xE3, CHR 0x80, CHR 0x80]]"

definition space_at :: "string list \<Rightarrow> string \<Rightarrow> nat" where
  "space_at ws s = (case find (\<lambda>w. prefix w s) ws of Some w \<Rightarrow> length w | None \<Rightarrow> 0)"

function strip_left :: "string list \<Rightarrow> string \<Rightarrow> string" where
  "strip_left ws s =
     (if space_at ws s = 0 then s else strip_left ws (drop (space_at ws s) s))"
  by pat_completeness auto
termination
proof (relation "measure (\<lambda>(ws, s). length s)")
  show "wf (measure (\<lambda>(ws, s). length s))" by simp
next
  fix ws :: "string list" and s :: string
  assume a: "space_at ws s \<noteq> 0"
  then obtain w where "find (\<lambda>w. prefix w s) ws = Some w" and "length w \<noteq> 0"
    by (auto simp: space_at_def split: option.splits)
  then have "prefix w s" and "w \<noteq> []" by (auto simp: find_Some_iff)
  then have "s \<noteq> []" by auto
  then show "((ws, drop (space_at ws s) s), (ws, s)) \<in> measure (\<lambda>(ws, s). length s)"
    using a by simp
qed

text \<open>The right end is stripped on the reversed string, with the encodings reversed.\<close>

definition str_strip :: "string \<Rightarrow> string" where
  "str_strip s =
     rev (strip_left (map rev unicode_spaces) (rev (strip_left unicode_spaces s)))"

text \<open>Lines 478-482: \<^verbatim>\<open>title.split('|')[0]\<close> is the text before the first bar.\<close>

definition newsletter_name :: "string \<Rightarrow> string" where
  "newsletter_name og_title =
     (if og_title \<noteq> [] \<and> CHR ''|'' \<in> set og_title
      then str_strip (takeWhile (\<lambda>c. c \<noteq> CHR ''|'') og_title)
      else og_title)"

text \<open>Lines 473-496.\<close>

definition newsletter_fallback :: "string \<Rightarrow> json_ld_result \<Rightarrow> meta_result \<Rightarrow> dict \<Rightarrow> dict" where
  "newsletter_fallback url_type jl md combined_data =
     (if url_type = ''newsletter'' \<and> \<not> found jl
      then (let og_data = open_graph md in
            if og_data \<noteq> []
            then (let d1 = dict_set combined_data ''name''
                             (JStr (newsletter_name
                                (case map_of og_data ''og:title'' of Some v \<Rightarrow> v | None \<Rightarrow> [])));
                      d2 = dict_set d1 ''description'' (bucket_get og_data ''og:description'');
                      d3 = dict_set d2 ''image_url'' (bucket_get og_data ''og:image'');
                      d4 = dict_set d3 ''url'' (bucket_get og_data ''og:url'');
                      d5 = dict_set d4 ''author''
                             (JObj [(''name'', JStr ''N/A''), (''url'', JStr ''N/A'')])
                  in dict_set d5 ''date_published'' (JStr ''N/A''))
            else combined_data)
      else combined_data)"

text \<open>
  \<^verbatim>\<open>re.search(lit + '([^/?]+)', s).group(1)\<close> for a literal \<open>lit\<close>: at the leftmost position
  where \<open>lit\<close> is followed by a character other than \<^verbatim>\<open>/\<close> and \<^verbatim>\<open>?\<close>, the longest run of
  such characters; \<open>None\<close> when there is no such position.
\<close>

definition segment_chars :: "string \<Rightarrow> string" where
  "segment_chars s = takeWhile (\<lambda>c. c \<noteq> CHR ''/'' \<and> c \<noteq> CHR ''?'') s"

fun re_search_segment :: "string \<Rightarrow> string \<Rightarrow> string option" where
  "re_search_segment lit [] = None"
| "re_search_segment lit (c # cs) =
     (if prefix lit (c # cs) \<and> segment_chars (drop (length lit) (c # cs)) \<noteq> []
      then Some (segment_chars (drop (length lit) (c # cs)))
      else re_search_segment lit cs)"

text \<open>
  Lines 499-513: \<open>page_url\<close> is \<^verbatim>\<open>self.browser_manager.page.url\<close>. The identifier is looked
  for when \<^verbatim>\<open>combined_data.get('username')\<close> is missing or falsy.
\<close>

definition username_from_url :: "string \<Rightarrow> string \<Rightarrow> dict \<Rightarrow> dict" where
  "username_from_url lit page_url combined_data =
     (case re_search_segment lit page_url of
        Some seg \<Rightarrow> dict_set combined_data ''username'' (JStr seg)
      | None \<Rightarrow> combined_data)"

definition username_backfill :: "string \<Rightarrow> string \<Rightarrow> dict \<Rightarrow> dict" where
  "username_backfill url_type page_url combined_data =
     (if url_type = ''profile'' \<and> \<not> py_truthy (dict_get combined_data ''username'' JNull)
      then username_from_url ''linkedin.com/in/'' page_url combined_data
      else if url_type = ''company'' \<and> \<not> py_truthy (dict_get combined_data ''username'' JNull)
      then username_from_url ''linkedin.com/company/'' page_url combined_data
      else if url_type = ''newsletter'' \<and> \<not> py_truthy (dict_get combined_data ''username'' JNull)
      then username_from_url ''linkedin.com/newsletters/'' page_url combined_data
      else combined_data)"

text \<open>
  Lines 442-517. \<^verbatim>\<open>if meta_data:\<close> holds for every dictionary the meta-tag extractor returns,
  which has five keys.
\<close>

definition combine_data_sources ::
  "json_ld_result \<Rightarrow> meta_result \<Rightarrow> string \<Rightarrow> string \<Rightarrow> dict"
where
  "combine_data_sources jl md url_type page_url =
     username_backfill url_type page_url
       (newsletter_fallback url_type jl md
          (add_page md (add_twitter md (add_open_graph md (seed_json_ld jl)))))"


section \<open>The pipeline\<close>

text \<open>
  What the browser manager returns for a URL: whether a popup was closed, the page content,
  the URL type it detects and the URL of the page it ended on.
\<close>

record browser_page =
  popup_closed :: bool
  page_content :: html_document
  detected_url_type :: string
  current_url :: string

text \<open>Lines 47-55: the dictionary \<^verbatim>\<open>extracted_data\<close>.\<close>

record extraction_result =
  out_url :: string
  out_url_type :: string
  out_popup_closed :: bool
  out_json_ld_data :: json_ld_result
  out_meta_data :: meta_result
  out_combined_data :: dict
  extraction_success :: bool

text \<open>
  What a call of \<^verbatim>\<open>extract_linkedin_data\<close> comes to: the dictionary of the extracted data;
  the dictionary of lines 76-80 with the URL and the text of the exception; or an exception
  that leaves the function, which only the \<^verbatim>\<open>print\<close> of line 32, before the \<^verbatim>\<open>try\<close>, and
  the \<^verbatim>\<open>print\<close> of line 75, in the handler, can raise.
\<close>

datatype outcome =
    Extracted extraction_result
  | Failed string string
  | Propagated pyexc

text \<open>
  Lines 30-80. \<open>browser\<close> gives, for a URL, the page or the text of the exception raised
  while navigating to it and reading it; \<open>error_text\<close> is \<^verbatim>\<open>str(e)\<close>. Line 32 prints the
  URL, line 43 the URL type and line 75 the text of the exception (that of a
  \<^verbatim>\<open>UnicodeEncodeError\<close> names the character by its escape and is printable); the other
  messages print counts and flags.
\<close>

definition extract_linkedin_data ::
  "(json \<Rightarrow> bool) \<Rightarrow> (pyexc \<Rightarrow> string) \<Rightarrow> (string \<Rightarrow> loads_result) \<Rightarrow>
   (string \<Rightarrow> string + browser_page) \<Rightarrow> string \<Rightarrow> outcome"
where
  "extract_linkedin_data printable error_text loads browser url =
     (if \<not> printable (JStr url) then Propagated UnicodeEncodeError
      else (case browser url of
              Inl err \<Rightarrow>
                if printable (JStr err) then Failed url err
                else Propagated UnicodeEncodeError
            | Inr page \<Rightarrow>
                (let html_content = page_content page;
                     url_type = detected_url_type page
                 in if \<not> printable (JStr url_type)
                    then Failed url (error_text UnicodeEncodeError)
                    else
                      (let json_ld_data = extract_json_ld_data loads html_content url_type;
                           meta_data = extract_meta_data html_content;
                           combined_data =
                             combine_data_sources json_ld_data meta_data url_type
                               (current_url page)
                       in Extracted
                            \<lparr>out_url = url,
                             out_url_type = url_type,
                             out_popup_closed = popup_closed page,
                             out_json_ld_data = json_ld_data,
                             out_meta_data = meta_data,
                             out_combined_data = combined_data,
                             extraction_success = found json_ld_data\<rparr>))))"


section \<open>Example inputs\<close>

text \<open>A Person node with an address and an employer.\<close>

definition person_node :: dict where
  "person_node =
     [(''@type'', JStr ''Person''), (''name'', JStr ''Ada''),
      (''address'', JObj [(''addressLocality'', JStr ''London''), (''addressCountry'', JStr ''GB'')]),
      (''worksFor'', JArr [JObj [(''name'', JStr ''Engines'')]])]"

text \<open>
  A newsletter landing page: no structured data, one social-preview tag, and the URL the
  browser ended on.
\<close>

definition newsletter_page :: browser_page where
  "newsletter_page =
     \<lparr>popup_closed = True,
      page_content =
        \<lparr>ld_json_scripts = [],
         meta_tags = [\<lparr>name_attr = None, property_attr = Some ''og:title'',
                       content_attr = Some ''AI Insider | LinkedIn''\<rparr>],
         title_tag = None\<rparr>,
      detected_url_type = ''newsletter'',
      current_url = ''https://www.linkedin.com/newsletters/ai-insider-7''\<rparr>"

text \<open>
  An interaction-statistics entry counting seven followers, with the FollowAction type
  written with the given scheme.
\<close>

definition follow_stat :: "string \<Rightarrow> json" where
  "follow_stat scheme =
     JObj [(''interactionType'', JStr (scheme @ ''://schema.org/FollowAction'')),
           (''userInteractionCount'', JNum 7)]"

definition followed_person :: "string \<Rightarrow> dict" where
  "followed_person scheme =
     [(''@type'', JStr ''Person''), (''name'', JStr ''Ada''),
      (''interactionStatistic'', follow_stat scheme)]"


definition followed_author :: "string \<Rightarrow> dict" where
  "followed_author scheme =
     [(''name'', JStr ''Ada''), (''interactionStatistic'', follow_stat scheme)]"

definition followed_post :: "string \<Rightarrow> dict" where
  "followed_post scheme =
     [(''@type'', JStr ''DiscussionForumPosting''), (''headline'', JStr ''Hello''),
      (''author'', JObj (followed_author scheme))]"

definition followed_article :: "string \<Rightarrow> dict" where
  "followed_article scheme =
     [(''@type'', JStr ''Article''), (''name'', JStr ''Issue 1''),
      (''author'', JObj (followed_author scheme))]"

text \<open>An Organization node, and a graph container around a list of nodes.\<close>

definition org_node :: dict where
  "org_node =
     [(''@type'', JStr ''Organization''), (''name'', JStr ''Engines''),
      (''numberOfEmployees'', JObj [(''value'', JNum 500)])]"

definition graph_of :: "json list \<Rightarrow> dict" where
  "graph_of nodes = [(''@context'', JStr ''https://schema.org''), (''@graph'', JArr nodes)]"

definition website_node :: dict where
  "website_node = [(''@type'', JStr ''WebSite''), (''name'', JStr ''LinkedIn'')]"




text \<open>
  A page head with a social-preview tag, a tag of the alternate namespace, a description,
  and a social-preview tag whose content is the empty string.
\<close>

definition head_document :: html_document where
  "head_document =
     \<lparr>ld_json_scripts = [],
      meta_tags =
        [\<lparr>name_attr = None, property_attr = Some ''og:title'', content_attr = Some ''Ada''\<rparr>,
         \<lparr>name_attr = Some ''twitter:card'', property_attr = None,
          content_attr = Some ''summary''\<rparr>,
         \<lparr>name_attr = Some ''description'', property_attr = None,
          content_attr = Some ''A profile''\<rparr>,
         \<lparr>name_attr = None, property_attr = Some ''og:image'', content_attr = Some ''''\<rparr>],
      title_tag = Some ''Ada | LinkedIn''\<rparr>"

definition empty_content_document :: html_document where
  "empty_content_document =
     \<lparr>ld_json_scripts = [],
      meta_tags =
        [\<lparr>name_attr = None, property_attr = Some ''og:image'', content_attr = Some ''''\<rparr>],
      title_tag = None\<rparr>"

text \<open>
  Meta data without any social-preview tag, the meta data of the newsletter landing page,
  the same with a no-break space (U+00A0) before the bar of the title, and the result of
  the structured-data extractor for a script holding \<^verbatim>\<open>{}\<close>.
\<close>

definition bare_meta :: meta_result where
  "bare_meta =
     \<lparr>open_graph = [], twitter = [], other_meta = [], title = ''News'', description = []\<rparr>"

definition newsletter_meta :: meta_result where
  "newsletter_meta =
     \<lparr>open_graph = [(''og:title'', ''AI Insider | LinkedIn'')],
      twitter = [], other_meta = [], title = [], description = []\<rparr>"

definition nbsp_meta :: meta_result where
  "nbsp_meta =
     \<lparr>open_graph = [(''og:title'', ''AI Insider'' @ [CHR 0xC2, CHR 0xA0] @ ''| LinkedIn'')],
      twitter = [], other_meta = [], title = [], description = []\<rparr>"

definition found_empty :: json_ld_result where
  "found_empty =
     \<lparr>found = True, raw_json = Some (JObj []), parsed_data = [],
      data_type = Some ''newsletter''\<rparr>"

text \<open>Structured data that already carries an identifier.\<close>

definition seeded_username :: json_ld_result where
  "seeded_username =
     \<lparr>found = True, raw_json = Some (JObj []), parsed_data = [(''username'', JStr ''ada'')],
      data_type = Some ''profile''\<rparr>"

text \<open>
  A stand-in for \<^verbatim>\<open>json.loads\<close> on the texts of the examples: two texts with the trees they
  denote; an integer of 4301 digits, on which \<^verbatim>\<open>json.loads\<close> raises \<^verbatim>\<open>ValueError\<close>; every other
  text, such as \<^verbatim>\<open>{bad\<close>, raises \<^verbatim>\<open>JSONDecodeError\<close>.
\<close>

definition person_text :: string where
  "person_text = ''{\"@type\":\"Person\",\"name\":\"Ada\"}''"

definition huge_number_text :: string where
  "huge_number_text = replicate 4301 (CHR ''1'')"

definition loads_table :: "string \<Rightarrow> loads_result" where
  "loads_table text =
     (if text = huge_number_text then OtherError
      else (case map_of [(''{}'', JObj []),
                         (person_text,
                          JObj [(''@type'', JStr ''Person''), (''name'', JStr ''Ada'')])] text of
              Some json_data \<Rightarrow> Loaded json_data
            | None \<Rightarrow> JSONDecodeError))"

text \<open>
  Documents with several linked-data scripts: an empty object before a Person node; a
  script without text, an empty script and a malformed script before a Person node and an
  empty object; the integer of 4301 digits before a Person node; and only scripts that do
  not parse.
\<close>

definition empty_first_document :: html_document where
  "empty_first_document =
     \<lparr>ld_json_scripts = [Some ''{}'', Some person_text], meta_tags = [], title_tag = None\<rparr>"

definition malformed_first_document :: html_document where
  "malformed_first_document =
     \<lparr>ld_json_scripts = [None, Some '''', Some ''{bad'', Some person_text, Some ''{}''],
      meta_tags = [], title_tag = None\<rparr>"

definition huge_number_first_document :: html_document where
  "huge_number_first_document =
     \<lparr>ld_json_scripts = [Some huge_number_text, Some person_text], meta_tags = [],
      title_tag = None\<rparr>"

definition malformed_only_document :: html_document where
  "malformed_only_document =
     \<lparr>ld_json_scripts = [None, Some ''{bad''], meta_tags = [], title_tag = None\<rparr>"

text \<open>
  A profile page whose structured data and whose head both carry a description, with the
  stand-in for \<^verbatim>\<open>json.loads\<close> on its one script.
\<close>

definition described_text :: string where
  "described_text = ''{\"@type\":\"Person\",\"name\":\"Ada\",\"description\":\"Engineer\"}''"

definition described_person :: dict where
  "described_person =
     [(''@type'', JStr ''Person''), (''name'', JStr ''Ada''), (''description'', JStr ''Engineer'')]"

definition described_loads :: "string \<Rightarrow> loads_result" where
  "described_loads text =
     (case map_of [(described_text, JObj described_person)] text of
        Some json_data \<Rightarrow> Loaded json_data
      | None \<Rightarrow> JSONDecodeError)"

definition described_document :: html_document where
  "described_document =
     \<lparr>ld_json_scripts = [Some described_text],
      meta_tags =
        [\<lparr>name_attr = None, property_attr = Some ''og:description'',
          content_attr = Some ''Preview''\<rparr>,
         \<lparr>name_attr = Some ''description'', property_attr = None,
          content_attr = Some ''Head''\<rparr>],
      title_tag = Some ''Ada | LinkedIn''\<rparr>"

text \<open>
  The keys that the entity parsers store, and the dictionaries built from them without a
  repeated key.
\<close>

definition entity_keys :: "string set" where
  "entity_keys =
     {''name'', ''job_title'', ''description'', ''url'', ''image_url'', ''location'',
      ''country'', ''works_for'', ''followers'', ''slogan'', ''logo_url'', ''address'',
      ''employee_count'', ''headline'', ''article_body'', ''date_published'',
      ''comment_count'', ''author'', ''author_followers'', ''comments'', ''likes'',
      ''comments_count'', ''date_modified'', ''type'', ''context'', ''id'', ''datePublished''}"

definition keys_in :: "dict \<Rightarrow> bool" where
  "keys_in d = (distinct (map fst d) \<and> fst ` set d \<subseteq> entity_keys)"


section \<open>Properties\<close>

subsection \<open>Dictionaries\<close>

lemma map_of_dict_set: "map_of (dict_set d k v) = (map_of d)(k \<mapsto> v)"
  by (simp add: dict_set_def update_conv')

lemma dict_has_dict_set: "dict_has (dict_set d k v) k' = (k' = k \<or> dict_has d k')"
  by (simp add: dict_has_def map_of_dict_set)


subsection \<open>Keys touched by the pieces of the profile parser\<close>

lemma map_of_profile_basic:
  "k \<notin> {''name'', ''job_title'', ''description'', ''url''} \<Longrightarrow>
   map_of (profile_basic node d) k = map_of d k"
  by (simp add: profile_basic_def Let_def map_of_dict_set)

lemma map_of_profile_image:
  "k \<noteq> ''image_url'' \<Longrightarrow> map_of (profile_image node d) k = map_of d k"
  by (simp add: profile_image_def map_of_dict_set split: option.splits json.splits)

lemma map_of_profile_followers:
  "k \<noteq> ''followers'' \<Longrightarrow> map_of (profile_followers node d) k = map_of d k"
  by (simp add: profile_followers_def map_of_dict_set split: option.splits json.splits)

lemma person_node_graph:
  "parse_profile_json_ld (JObj [(''@graph'', JArr [JObj person_node])]) =
    [(''name'', JStr ''Ada''), (''job_title'', JArr []),
     (''description'', JStr []), (''url'', JStr []),
     (''location'', JStr ''London''), (''country'', JStr ''GB''),
     (''works_for'',
       JArr [JObj [(''company_name'', JStr ''Engines''), (''company_url'', JStr []),
                   (''description'', JStr []), (''start_date'', JStr [])]])]"
  by (simp add: parse_profile_json_ld_def person_node_def dict_has_def dict_get_def
      profile_graph_item_def profile_basic_def profile_image_def profile_followers_def
      dict_set_def profile_address_def profile_works_for_def work_info_def)

subsection \<open>C10: a direct Person node gives no location, country or employers\<close>

text \<open>
  Claim C10. When the tree is a direct top-level Person node (a mapping without the key
  \<^verbatim>\<open>@graph\<close> whose \<^verbatim>\<open>@type\<close> is \<^verbatim>\<open>Person\<close>), the profile parser stores none of the fields
  \<^verbatim>\<open>location\<close>, \<^verbatim>\<open>country\<close> and \<^verbatim>\<open>works_for\<close>, whatever \<^verbatim>\<open>address\<close> and \<^verbatim>\<open>worksFor\<close> entries
  the node holds; only the graph branch reads them.
\<close>

theorem direct_person_no_location:
  assumes "\<not> dict_has json_data ''@graph''"
    and "dict_get json_data ''@type'' JNull = JStr ''Person''"
    and "k \<in> {''location'', ''country'', ''works_for''}"
  shows "map_of (parse_profile_json_ld (JObj json_data)) k = None"
  using assms
  by (auto simp: parse_profile_json_ld_def profile_direct_def map_of_profile_basic
      map_of_profile_image map_of_profile_followers)

text \<open>
  The node \<open>person_node\<close> has an address and an employer: parsed directly it yields none of
  the three fields, and the same node inside a graph container yields its location.
\<close>

theorem direct_person_no_location_witness:
  "\<not> dict_has person_node ''@graph'' \<and>
   dict_get person_node ''@type'' JNull = JStr ''Person'' \<and>
   dict_has person_node ''address'' \<and> dict_has person_node ''worksFor'' \<and>
   map_of (parse_profile_json_ld (JObj person_node)) ''location'' = None \<and>
   map_of (parse_profile_json_ld (JObj person_node)) ''country'' = None \<and>
   map_of (parse_profile_json_ld (JObj person_node)) ''works_for'' = None \<and>
   map_of (parse_profile_json_ld (JObj [(''@graph'', JArr [JObj person_node])])) ''location''
     = Some (JStr ''London'')"
proof -
  have h1: "\<not> dict_has person_node ''@graph''"
    by (simp add: person_node_def dict_has_def)
  have h2: "dict_get person_node ''@type'' JNull = JStr ''Person''"
    by (simp add: person_node_def dict_get_def)
  have h3: "dict_has person_node ''address'' \<and> dict_has person_node ''worksFor''"
    by (simp add: person_node_def dict_has_def)
  show ?thesis
    using h1 h2 h3
      direct_person_no_location[OF h1 h2, of "''location''"]
      direct_person_no_location[OF h1 h2, of "''country''"]
      direct_person_no_location[OF h1 h2, of "''works_for''"]
    by (simp add: person_node_graph)
qed

subsection \<open>C3: the success flag\<close>

lemma newsletter_page_meta:
  "extract_meta_data (page_content newsletter_page) =
     \<lparr>open_graph = [(''og:title'', ''AI Insider | LinkedIn'')],
      twitter = [], other_meta = [], title = [], description = []\<rparr>"
  by (simp add: newsletter_page_def extract_meta_data_def meta_step_def meta_name_def
      description_tag_def)

lemma newsletter_page_json_ld:
  "extract_json_ld_data loads (page_content newsletter_page) url_type = json_ld_init"
  by (simp add: newsletter_page_def extract_json_ld_data_def)

lemma newsletter_page_url:
  "re_search_segment ''linkedin.com/newsletters/'' (current_url newsletter_page)
     = Some ''ai-insider-7''"
  by (simp add: newsletter_page_def segment_chars_def)

lemma strip_example: "str_strip ''AI Insider '' = ''AI Insider''"
  by code_simp

lemma newsletter_name_example: "newsletter_name ''AI Insider | LinkedIn'' = ''AI Insider''"
  by (simp add: newsletter_name_def strip_example)

lemma newsletter_page_combined:
  "combine_data_sources json_ld_init
     \<lparr>open_graph = [(''og:title'', ''AI Insider | LinkedIn'')],
      twitter = [], other_meta = [], title = [], description = []\<rparr>
     ''newsletter'' (current_url newsletter_page) =
        [(''og_title'', JStr ''AI Insider | LinkedIn''),
         (''og_description'', JStr []), (''og_image'', JStr []),
         (''og_url'', JStr []), (''og_type'', JStr []),
         (''page_title'', JStr []), (''page_description'', JStr []),
         (''name'', JStr ''AI Insider''), (''description'', JStr []),
         (''image_url'', JStr []), (''url'', JStr []),
         (''author'', JObj [(''name'', JStr ''N/A''), (''url'', JStr ''N/A'')]),
         (''date_published'', JStr ''N/A''),
         (''username'', JStr ''ai-insider-7'')]"
  by (simp add: combine_data_sources_def json_ld_init_def seed_json_ld_def dict_update_def
      add_open_graph_def add_twitter_def add_page_def
      newsletter_fallback_def newsletter_name_example bucket_get_def
      dict_set_def username_backfill_def username_from_url_def dict_get_def
      newsletter_page_url)

lemma newsletter_page_result:
  "extract_linkedin_data (\<lambda>v. True) (\<lambda>e. ''error'') (\<lambda>t. JSONDecodeError)
     (\<lambda>u. Inr newsletter_page) ''u'' =
   Extracted
     \<lparr>out_url = ''u'', out_url_type = ''newsletter'', out_popup_closed = True,
      out_json_ld_data =
        \<lparr>found = False, raw_json = None, parsed_data = [], data_type = None\<rparr>,
      out_meta_data =
        \<lparr>open_graph = [(''og:title'', ''AI Insider | LinkedIn'')],
         twitter = [], other_meta = [], title = [], description = []\<rparr>,
      out_combined_data =
        [(''og_title'', JStr ''AI Insider | LinkedIn''),
         (''og_description'', JStr []), (''og_image'', JStr []),
         (''og_url'', JStr []), (''og_type'', JStr []),
         (''page_title'', JStr []), (''page_description'', JStr []),
         (''name'', JStr ''AI Insider''), (''description'', JStr []),
         (''image_url'', JStr []), (''url'', JStr []),
         (''author'', JObj [(''name'', JStr ''N/A''), (''url'', JStr ''N/A'')]),
         (''date_published'', JStr ''N/A''),
         (''username'', JStr ''ai-insider-7'')],
      extraction_success = False\<rparr>"
proof -
  have t: "detected_url_type newsletter_page = ''newsletter''"
    and p: "popup_closed newsletter_page = True"
    by (simp_all add: newsletter_page_def)
  show ?thesis
    by (simp add: extract_linkedin_data_def newsletter_page_meta newsletter_page_json_ld t p
      newsletter_page_combined) (simp add: json_ld_init_def)
qed

text \<open>
  Claim C3. A request reaches the reconcile stage when the URL and the URL type can be
  printed and the browser delivers a page; it then returns the extracted data. Whenever
  the extracted data is returned, its flag \<^verbatim>\<open>extraction_success\<close> is the flag \<^verbatim>\<open>found\<close> of the
  result of the structured-data extractor on the page, whatever the combined record, which
  the reconciler makes of that result and the meta data, holds.
\<close>

theorem extraction_success_iff_found:
  "(browser url = Inr page \<and> printable (JStr url) \<and>
    printable (JStr (detected_url_type page)) \<longrightarrow>
      (\<exists>r. extract_linkedin_data printable error_text loads browser url = Extracted r))
   \<and>
   (extract_linkedin_data printable error_text loads browser url = Extracted r \<longrightarrow>
      extraction_success r = found (out_json_ld_data r) \<and>
      (\<exists>page. browser url = Inr page \<and>
         out_json_ld_data r
           = extract_json_ld_data loads (page_content page) (detected_url_type page) \<and>
         out_combined_data r
           = combine_data_sources (out_json_ld_data r) (out_meta_data r) (out_url_type r)
               (current_url page)))"
  by (auto simp: extract_linkedin_data_def Let_def split: sum.splits if_splits)

text \<open>
  On the newsletter landing page the fallbacks fill the combined record (name, author,
  identifier), and the request is still not a success.
\<close>

theorem extraction_success_iff_found_witness:
  "(\<lambda>u. Inr newsletter_page) ''u'' = (Inr newsletter_page :: string + browser_page) \<and>
   (\<exists>r. extract_linkedin_data (\<lambda>v. True) (\<lambda>e. ''error'') (\<lambda>t. JSONDecodeError)
          (\<lambda>u. Inr newsletter_page) ''u'' = Extracted r \<and>
        extraction_success r = found (out_json_ld_data r) \<and>
        \<not> extraction_success r \<and>
        map_of (out_combined_data r) ''name'' = Some (JStr ''AI Insider'') \<and>
        map_of (out_combined_data r) ''username'' = Some (JStr ''ai-insider-7''))"
proof -
  have h: "(\<lambda>u. Inr newsletter_page) ''u'' = (Inr newsletter_page :: string + browser_page)"
    by simp
  note t = extraction_success_iff_found[of "\<lambda>u. Inr newsletter_page" "''u''" newsletter_page
      "\<lambda>v. True" "\<lambda>e. ''error''" "\<lambda>t. JSONDecodeError"]
  from conjunct1[OF t] h
  obtain r where r: "extract_linkedin_data (\<lambda>v. True) (\<lambda>e. ''error'') (\<lambda>t. JSONDecodeError)
          (\<lambda>u. Inr newsletter_page) ''u'' = Extracted r"
    by blast
  have s: "extraction_success r = found (out_json_ld_data r)"
    using extraction_success_iff_found[of "\<lambda>u. Inr newsletter_page" "''u''" newsletter_page
      "\<lambda>v. True" "\<lambda>e. ''error''" "\<lambda>t. JSONDecodeError" r] r by blast
  from r have "\<not> extraction_success r"
    and "map_of (out_combined_data r) ''name'' = Some (JStr ''AI Insider'')"
    and "map_of (out_combined_data r) ''username'' = Some (JStr ''ai-insider-7'')"
    by (auto simp: newsletter_page_result)
  with r s h show ?thesis by blast
qed

subsection \<open>Blocks of statements\<close>

lemma run_stmts_ok: "s d = (d', None) \<Longrightarrow> run_stmts (s # ss) d = run_stmts ss d'"
  by simp


subsection \<open>Keys touched by the pieces of the parsers\<close>











lemma print_field_missing: "map_of d k = None \<Longrightarrow> print_field printable k d = None"
  by (simp add: print_field_def)

lemma print_field_raises:
  "print_field printable k d = Some e \<Longrightarrow> e = UnicodeEncodeError \<and> dict_has d k"
  by (auto simp: print_field_def dict_has_def split: option.splits if_splits)

lemma parse_post_typed:
  "dict_get jd ''@type'' JNull = JStr ''DiscussionForumPosting'' \<Longrightarrow>
   parse_post_json_ld (JObj jd) =
     fst (run_stmts [\<lambda>pd. (post_basic jd pd, None), post_author jd, post_comments jd,
                     interaction_statistics jd] [])"
  by (simp add: parse_post_json_ld_def)

lemma parse_post_untyped:
  "dict_get jd ''@type'' JNull \<noteq> JStr ''DiscussionForumPosting'' \<Longrightarrow>
   parse_post_json_ld (JObj jd) = []"
  by (simp add: parse_post_json_ld_def)

subsection \<open>Graph containers and typed nodes\<close>

lemma parse_newsletter_typed:
  "dict_get jd ''@type'' JNull = JStr ''Article'' \<Longrightarrow>
   parse_newsletter_json_ld (JObj jd) =
     fst (interaction_statistics jd
            (newsletter_author jd (newsletter_image jd (newsletter_basic jd []))))"
  by (simp add: parse_newsletter_json_ld_def split: prod.splits option.splits)

lemma parse_newsletter_untyped:
  "dict_get jd ''@type'' JNull \<noteq> JStr ''Article'' \<Longrightarrow>
   parse_newsletter_json_ld (JObj jd) = []"
  by (simp add: parse_newsletter_json_ld_def)

lemma profile_graph_loop_skip:
  "\<forall>x\<in>set pre. \<exists>it. x = JObj it \<and> dict_get it ''@type'' JNull \<noteq> JStr ''Person'' \<Longrightarrow>
   profile_graph_loop (pre @ rest) d = profile_graph_loop rest d"
  by (induction pre) auto

lemma company_graph_loop_skip:
  "\<forall>x\<in>set pre. \<exists>it. x = JObj it \<and> dict_get it ''@type'' JNull \<noteq> JStr ''Organization'' \<Longrightarrow>
   company_graph_loop (pre @ rest) d = company_graph_loop rest d"
  by (induction pre) auto



subsection \<open>C4: follower counts\<close>




















subsection \<open>C6: graph containers\<close>

lemma profile_graph_loop_none:
  "\<forall>x\<in>set items. \<forall>it. x = JObj it \<longrightarrow> dict_get it ''@type'' JNull \<noteq> JStr ''Person'' \<Longrightarrow>
   fst (profile_graph_loop items d) = d"
  by (induction items d rule: profile_graph_loop.induct) auto

lemma company_graph_loop_none:
  "\<forall>x\<in>set items. \<forall>it. x = JObj it \<longrightarrow> dict_get it ''@type'' JNull \<noteq> JStr ''Organization'' \<Longrightarrow>
   fst (company_graph_loop items d) = d"
  by (induction items d rule: company_graph_loop.induct) auto

lemma parse_profile_graph_first:
  assumes "map_of g ''@graph'' = Some (JArr (pre @ JObj item # rest))"
    and "\<forall>x\<in>set pre. \<exists>it. x = JObj it \<and> dict_get it ''@type'' JNull \<noteq> JStr ''Person''"
    and "dict_get item ''@type'' JNull = JStr ''Person''"
  shows "parse_profile_json_ld (JObj g) = parse_profile_json_ld (JObj [(''@graph'', JArr [JObj item])])"
  using assms
  by (simp add: parse_profile_json_ld_def dict_has_def dict_get_def profile_graph_loop_skip)

lemma parse_company_graph_first:
  assumes "map_of g ''@graph'' = Some (JArr (pre @ JObj item # rest))"
    and "\<forall>x\<in>set pre. \<exists>it. x = JObj it \<and> dict_get it ''@type'' JNull \<noteq> JStr ''Organization''"
    and "dict_get item ''@type'' JNull = JStr ''Organization''"
  shows "parse_company_json_ld (JObj g) = parse_company_json_ld (JObj [(''@graph'', JArr [JObj item])])"
  using assms
  by (simp add: parse_company_json_ld_def dict_has_def dict_get_def company_graph_loop_skip)

lemma parse_profile_graph_none:
  assumes "map_of g ''@graph'' = Some (JArr items)"
    and "\<forall>x\<in>set items. \<forall>it. x = JObj it \<longrightarrow> dict_get it ''@type'' JNull \<noteq> JStr ''Person''"
  shows "parse_profile_json_ld (JObj g) = []"
  using assms
  by (simp add: parse_profile_json_ld_def dict_has_def dict_get_def profile_graph_loop_none)

lemma parse_company_graph_none:
  assumes "map_of g ''@graph'' = Some (JArr items)"
    and "\<forall>x\<in>set items. \<forall>it. x = JObj it \<longrightarrow> dict_get it ''@type'' JNull \<noteq> JStr ''Organization''"
  shows "parse_company_json_ld (JObj g) = []"
  using assms
  by (simp add: parse_company_json_ld_def dict_has_def dict_get_def company_graph_loop_none)

lemma post_in_graph:
  "parse_post_json_ld (JObj (graph_of [JObj (followed_post ''http'')])) = []"
  by (simp add: parse_post_untyped graph_of_def dict_get_def)

lemma article_in_graph:
  "parse_newsletter_json_ld (JObj (graph_of [JObj (followed_article ''https'')])) = []"
  by (simp add: parse_newsletter_untyped graph_of_def dict_get_def)

lemma post_direct:
  "map_of (parse_post_json_ld (JObj (followed_post ''http''))) ''headline'' = Some (JStr ''Hello'')"
  by (simp add: followed_post_def followed_author_def follow_stat_def parse_post_json_ld_def
      dict_has_def dict_get_def post_basic_def post_author_def post_author_followers_def
      post_comments_def interaction_statistics_def post_print_def dict_set_def)

lemma article_direct:
  "map_of (parse_newsletter_json_ld (JObj (followed_article ''https''))) ''name''
     = Some (JStr ''Issue 1'')"
  by (simp add: followed_article_def followed_author_def follow_stat_def
      parse_newsletter_json_ld_def dict_has_def dict_get_def newsletter_basic_def
      newsletter_image_def newsletter_author_def newsletter_author_followers_def
      interaction_statistics_def dict_set_def)

text \<open>
  Claim C6 as stated fails for the post and the newsletter parser: a graph container
  holding a node of their target type yields the empty mapping, while the same node given
  directly is parsed.
\<close>

theorem graph_container_post_counterexample:
  "parse_post_json_ld (JObj (graph_of [JObj (followed_post ''http'')])) = [] \<and>
   map_of (parse_post_json_ld (JObj (followed_post ''http''))) ''headline''
     = Some (JStr ''Hello'') \<and>
   parse_newsletter_json_ld (JObj (graph_of [JObj (followed_article ''https'')])) = [] \<and>
   map_of (parse_newsletter_json_ld (JObj (followed_article ''https''))) ''name''
     = Some (JStr ''Issue 1'')"
  by (simp only: post_in_graph article_in_graph post_direct article_direct simp_thms)

text \<open>
  Claim C6, amended. The profile and the organization parser read a graph container: when
  the nodes before the first node of the target type are mappings, the result is that of
  this node alone, whatever follows it; when no node of the list is a mapping of the target
  type, the result is empty. The post and the newsletter parser do not look into a graph
  container: a tree whose own type is not their target type yields the empty mapping.
\<close>

theorem graph_container_first_match:
  "(map_of g ''@graph'' = Some (JArr (pre @ JObj item # rest)) \<and>
    (\<forall>x\<in>set pre. \<exists>it. x = JObj it \<and> dict_get it ''@type'' JNull \<noteq> JStr ''Person'') \<and>
    dict_get item ''@type'' JNull = JStr ''Person'' \<longrightarrow>
      parse_profile_json_ld (JObj g)
        = parse_profile_json_ld (JObj [(''@graph'', JArr [JObj item])]))
   \<and>
   (map_of h ''@graph'' = Some (JArr items) \<and>
    (\<forall>x\<in>set items. \<forall>it. x = JObj it \<longrightarrow> dict_get it ''@type'' JNull \<noteq> JStr ''Person'') \<longrightarrow>
      parse_profile_json_ld (JObj h) = [])
   \<and>
   (map_of c ''@graph'' = Some (JArr (cpre @ JObj citem # crest)) \<and>
    (\<forall>x\<in>set cpre. \<exists>it. x = JObj it \<and> dict_get it ''@type'' JNull \<noteq> JStr ''Organization'') \<and>
    dict_get citem ''@type'' JNull = JStr ''Organization'' \<longrightarrow>
      parse_company_json_ld (JObj c)
        = parse_company_json_ld (JObj [(''@graph'', JArr [JObj citem])]))
   \<and>
   (map_of e ''@graph'' = Some (JArr citems) \<and>
    (\<forall>x\<in>set citems. \<forall>it. x = JObj it \<longrightarrow>
        dict_get it ''@type'' JNull \<noteq> JStr ''Organization'') \<longrightarrow>
      parse_company_json_ld (JObj e) = [])
   \<and>
   (dict_get t ''@type'' JNull \<noteq> JStr ''DiscussionForumPosting'' \<longrightarrow>
      parse_post_json_ld (JObj t) = [])
   \<and>
   (dict_get u ''@type'' JNull \<noteq> JStr ''Article'' \<longrightarrow>
      parse_newsletter_json_ld (JObj u) = [])"
  using parse_profile_graph_first[of g pre item rest] parse_profile_graph_none[of h items]
    parse_company_graph_first[of c cpre citem crest] parse_company_graph_none[of e citems]
    parse_post_untyped[of t] parse_newsletter_untyped[of u]
  by blast

lemma org_node_graph:
  "map_of (parse_company_json_ld (JObj [(''@graph'', JArr [JObj org_node])])) ''employee_count''
     = Some (JNum 500)"
  by (simp add: parse_company_json_ld_def org_node_def dict_has_def dict_get_def
      company_graph_item_def company_basic_def company_logo_def company_address_def
      company_employees_def dict_set_def)

text \<open>
  The cases of C6 at concrete graphs: a WebSite node before the Person (Organization) node
  and another node after it; a graph with no target node; a graph around a post and around
  an article.
\<close>

theorem graph_container_first_match_witness:
  "(map_of (graph_of [JObj website_node, JObj person_node, JObj (followed_person ''https'')])
       ''@graph''
      = Some (JArr ([JObj website_node] @ JObj person_node # [JObj (followed_person ''https'')]))
    \<and>
    dict_get website_node ''@type'' JNull \<noteq> JStr ''Person'' \<and>
    dict_get person_node ''@type'' JNull = JStr ''Person'' \<and>
    map_of (parse_profile_json_ld
              (JObj (graph_of [JObj website_node, JObj person_node,
                               JObj (followed_person ''https'')]))) ''location''
      = Some (JStr ''London''))
   \<and>
   (map_of (graph_of [JObj website_node, JStr ''x'']) ''@graph''
      = Some (JArr [JObj website_node, JStr ''x'']) \<and>
    parse_profile_json_ld (JObj (graph_of [JObj website_node, JStr ''x''])) = [])
   \<and>
   (map_of (graph_of [JObj website_node, JObj org_node, JObj person_node]) ''@graph''
      = Some (JArr ([JObj website_node] @ JObj org_node # [JObj person_node])) \<and>
    dict_get website_node ''@type'' JNull \<noteq> JStr ''Organization'' \<and>
    dict_get org_node ''@type'' JNull = JStr ''Organization'' \<and>
    map_of (parse_company_json_ld
              (JObj (graph_of [JObj website_node, JObj org_node, JObj person_node])))
        ''employee_count''
      = Some (JNum 500))
   \<and>
   (map_of (graph_of [JObj website_node, JObj person_node]) ''@graph''
      = Some (JArr [JObj website_node, JObj person_node]) \<and>
    dict_get person_node ''@type'' JNull \<noteq> JStr ''Organization'' \<and>
    parse_company_json_ld (JObj (graph_of [JObj website_node, JObj person_node])) = [])
   \<and>
   (dict_get (graph_of [JObj (followed_post ''http'')]) ''@type'' JNull
      \<noteq> JStr ''DiscussionForumPosting'' \<and>
    parse_post_json_ld (JObj (graph_of [JObj (followed_post ''http'')])) = [])
   \<and>
   (dict_get (graph_of [JObj (followed_article ''https'')]) ''@type'' JNull \<noteq> JStr ''Article'' \<and>
    parse_newsletter_json_ld (JObj (graph_of [JObj (followed_article ''https'')])) = [])"
proof -
  have a1: "map_of (graph_of [JObj website_node, JObj person_node, JObj (followed_person ''https'')])
       ''@graph''
      = Some (JArr ([JObj website_node] @ JObj person_node # [JObj (followed_person ''https'')]))"
    by (simp add: graph_of_def)
  have a2: "\<forall>x\<in>set [JObj website_node].
        \<exists>it. x = JObj it \<and> dict_get it ''@type'' JNull \<noteq> JStr ''Person''"
    by (simp add: website_node_def dict_get_def)
  have a3: "dict_get person_node ''@type'' JNull = JStr ''Person''"
    by (simp add: person_node_def dict_get_def)
  have b1: "map_of (graph_of [JObj website_node, JStr ''x'']) ''@graph''
      = Some (JArr [JObj website_node, JStr ''x''])"
    by (simp add: graph_of_def)
  have b2: "\<forall>x\<in>set [JObj website_node, JStr ''x''].
        \<forall>it. x = JObj it \<longrightarrow> dict_get it ''@type'' JNull \<noteq> JStr ''Person''"
    by (simp add: website_node_def dict_get_def)
  have c1: "map_of (graph_of [JObj website_node, JObj org_node, JObj person_node]) ''@graph''
      = Some (JArr ([JObj website_node] @ JObj org_node # [JObj person_node]))"
    by (simp add: graph_of_def)
  have c2: "\<forall>x\<in>set [JObj website_node].
        \<exists>it. x = JObj it \<and> dict_get it ''@type'' JNull \<noteq> JStr ''Organization''"
    by (simp add: website_node_def dict_get_def)
  have c3: "dict_get org_node ''@type'' JNull = JStr ''Organization''"
    by (simp add: org_node_def dict_get_def)
  have d1: "map_of (graph_of [JObj website_node, JObj person_node]) ''@graph''
      = Some (JArr [JObj website_node, JObj person_node])"
    by (simp add: graph_of_def)
  have d2: "\<forall>x\<in>set [JObj website_node, JObj person_node].
        \<forall>it. x = JObj it \<longrightarrow> dict_get it ''@type'' JNull \<noteq> JStr ''Organization''"
    by (simp add: website_node_def person_node_def dict_get_def)
  have e1: "dict_get (graph_of [JObj (followed_post ''http'')]) ''@type'' JNull
      \<noteq> JStr ''DiscussionForumPosting''"
    by (simp add: graph_of_def dict_get_def)
  have f1: "dict_get (graph_of [JObj (followed_article ''https'')]) ''@type'' JNull
      \<noteq> JStr ''Article''"
    by (simp add: graph_of_def dict_get_def)
  note t = graph_container_first_match[of
      "graph_of [JObj website_node, JObj person_node, JObj (followed_person ''https'')]"
      "[JObj website_node]" person_node "[JObj (followed_person ''https'')]"
      "graph_of [JObj website_node, JStr ''x'']" "[JObj website_node, JStr ''x'']"
      "graph_of [JObj website_node, JObj org_node, JObj person_node]"
      "[JObj website_node]" org_node "[JObj person_node]"
      "graph_of [JObj website_node, JObj person_node]" "[JObj website_node, JObj person_node]"
      "graph_of [JObj (followed_post ''http'')]"
      "graph_of [JObj (followed_article ''https'')]"]
  have g: "parse_profile_json_ld
              (JObj (graph_of [JObj website_node, JObj person_node,
                               JObj (followed_person ''https'')]))
        = parse_profile_json_ld (JObj [(''@graph'', JArr [JObj person_node])])"
    using t a1 a2 a3 by blast
  have c: "parse_company_json_ld
              (JObj (graph_of [JObj website_node, JObj org_node, JObj person_node]))
        = parse_company_json_ld (JObj [(''@graph'', JArr [JObj org_node])])"
    using t c1 c2 c3 by blast
  have h: "parse_profile_json_ld (JObj (graph_of [JObj website_node, JStr ''x''])) = []"
    using t b1 b2 by blast
  have e: "parse_company_json_ld (JObj (graph_of [JObj website_node, JObj person_node])) = []"
    using t d1 d2 by blast
  have p: "parse_post_json_ld (JObj (graph_of [JObj (followed_post ''http'')])) = []"
    using t e1 by blast
  have n: "parse_newsletter_json_ld (JObj (graph_of [JObj (followed_article ''https'')])) = []"
    using t f1 by blast
  have g': "map_of (parse_profile_json_ld
              (JObj (graph_of [JObj website_node, JObj person_node,
                               JObj (followed_person ''https'')]))) ''location''
      = Some (JStr ''London'')"
    by (simp add: g person_node_graph)
  have c': "map_of (parse_company_json_ld
              (JObj (graph_of [JObj website_node, JObj org_node, JObj person_node])))
        ''employee_count'' = Some (JNum 500)"
    by (simp add: c org_node_graph)
  have w1: "dict_get website_node ''@type'' JNull \<noteq> JStr ''Person''"
    and w2: "dict_get website_node ''@type'' JNull \<noteq> JStr ''Organization''"
    and w3: "dict_get person_node ''@type'' JNull \<noteq> JStr ''Organization''"
    by (simp_all add: website_node_def person_node_def dict_get_def)
  show ?thesis
    using a1 a3 g' b1 h c1 c3 c' d1 e e1 p f1 n w1 w2 w3 by simp
qed

subsection \<open>C5: exceptions inside the parsers\<close>


























subsection \<open>C9: the three buckets of the meta-tag extractor\<close>

lemma open_graph_meta_step:
  "open_graph (meta_step m md) =
     (case (meta_name m, content_attr m) of
        (Some n, Some c) \<Rightarrow>
          if n \<noteq> [] \<and> c \<noteq> [] \<and> prefix ''og:'' n then AList.update n c (open_graph md)
          else open_graph md
      | _ \<Rightarrow> open_graph md)"
  by (simp add: meta_step_def split: option.splits)

lemma twitter_meta_step:
  "twitter (meta_step m md) =
     (case (meta_name m, content_attr m) of
        (Some n, Some c) \<Rightarrow>
          if n \<noteq> [] \<and> c \<noteq> [] \<and> \<not> prefix ''og:'' n \<and> prefix ''twitter:'' n
          then AList.update n c (twitter md)
          else twitter md
      | _ \<Rightarrow> twitter md)"
  by (simp add: meta_step_def split: option.splits)

lemma other_meta_step:
  "other_meta (meta_step m md) =
     (case (meta_name m, content_attr m) of
        (Some n, Some c) \<Rightarrow>
          if n \<noteq> [] \<and> c \<noteq> [] \<and> \<not> prefix ''og:'' n \<and> \<not> prefix ''twitter:'' n
          then AList.update n c (other_meta md)
          else other_meta md
      | _ \<Rightarrow> other_meta md)"
  by (simp add: meta_step_def split: option.splits)

lemma open_graph_keys:
  "fst ` set (open_graph (meta_loop ms md)) =
     fst ` set (open_graph md) \<union>
     {n. prefix ''og:'' n \<and>
         (\<exists>m\<in>set ms. \<exists>c. meta_name m = Some n \<and> content_attr m = Some c \<and> n \<noteq> [] \<and> c \<noteq> [])}"
proof (induction ms arbitrary: md)
  case Nil
  then show ?case by simp
next
  case (Cons m ms)
  show ?case
    unfolding meta_loop.simps Cons.IH open_graph_meta_step
    by (auto simp: dom_update split: option.splits if_splits)
qed

lemma twitter_keys:
  "fst ` set (twitter (meta_loop ms md)) =
     fst ` set (twitter md) \<union>
     {n. \<not> prefix ''og:'' n \<and> prefix ''twitter:'' n \<and>
         (\<exists>m\<in>set ms. \<exists>c. meta_name m = Some n \<and> content_attr m = Some c \<and> n \<noteq> [] \<and> c \<noteq> [])}"
proof (induction ms arbitrary: md)
  case Nil
  then show ?case by simp
next
  case (Cons m ms)
  show ?case
    unfolding meta_loop.simps Cons.IH twitter_meta_step
    by (auto simp: dom_update split: option.splits if_splits)
qed

lemma other_meta_keys:
  "fst ` set (other_meta (meta_loop ms md)) =
     fst ` set (other_meta md) \<union>
     {n. \<not> prefix ''og:'' n \<and> \<not> prefix ''twitter:'' n \<and>
         (\<exists>m\<in>set ms. \<exists>c. meta_name m = Some n \<and> content_attr m = Some c \<and> n \<noteq> [] \<and> c \<noteq> [])}"
proof (induction ms arbitrary: md)
  case Nil
  then show ?case by simp
next
  case (Cons m ms)
  show ?case
    unfolding meta_loop.simps Cons.IH other_meta_step
    by (auto simp: dom_update split: option.splits if_splits)
qed

lemma open_graph_values:
  "map_of (open_graph (meta_loop ms md)) n = Some c \<Longrightarrow>
   map_of (open_graph md) n = Some c \<or>
   (c \<noteq> [] \<and> (\<exists>m\<in>set ms. meta_name m = Some n \<and> content_attr m = Some c))"
proof (induction ms arbitrary: md)
  case Nil
  then show ?case by simp
next
  case (Cons m ms)
  from Cons.IH[of "meta_step m md"] Cons.prems
  have "map_of (open_graph (meta_step m md)) n = Some c \<or>
        (c \<noteq> [] \<and> (\<exists>m\<in>set ms. meta_name m = Some n \<and> content_attr m = Some c))"
    by simp
  then show ?case
    by (auto simp: open_graph_meta_step update_conv' split: option.splits if_splits)
qed

lemma twitter_values:
  "map_of (twitter (meta_loop ms md)) n = Some c \<Longrightarrow>
   map_of (twitter md) n = Some c \<or>
   (c \<noteq> [] \<and> (\<exists>m\<in>set ms. meta_name m = Some n \<and> content_attr m = Some c))"
proof (induction ms arbitrary: md)
  case Nil
  then show ?case by simp
next
  case (Cons m ms)
  from Cons.IH[of "meta_step m md"] Cons.prems
  have "map_of (twitter (meta_step m md)) n = Some c \<or>
        (c \<noteq> [] \<and> (\<exists>m\<in>set ms. meta_name m = Some n \<and> content_attr m = Some c))"
    by simp
  then show ?case
    by (auto simp: twitter_meta_step update_conv' split: option.splits if_splits)
qed

lemma other_meta_values:
  "map_of (other_meta (meta_loop ms md)) n = Some c \<Longrightarrow>
   map_of (other_meta md) n = Some c \<or>
   (c \<noteq> [] \<and> (\<exists>m\<in>set ms. meta_name m = Some n \<and> content_attr m = Some c))"
proof (induction ms arbitrary: md)
  case Nil
  then show ?case by simp
next
  case (Cons m ms)
  from Cons.IH[of "meta_step m md"] Cons.prems
  have "map_of (other_meta (meta_step m md)) n = Some c \<or>
        (c \<noteq> [] \<and> (\<exists>m\<in>set ms. meta_name m = Some n \<and> content_attr m = Some c))"
    by simp
  then show ?case
    by (auto simp: other_meta_step update_conv' split: option.splits if_splits)
qed

lemma extract_meta_data_buckets:
  "open_graph (extract_meta_data html)
     = open_graph (meta_loop (meta_tags html)
         \<lparr>open_graph = [], twitter = [], other_meta = [], title = [], description = []\<rparr>)"
  "twitter (extract_meta_data html)
     = twitter (meta_loop (meta_tags html)
         \<lparr>open_graph = [], twitter = [], other_meta = [], title = [], description = []\<rparr>)"
  "other_meta (extract_meta_data html)
     = other_meta (meta_loop (meta_tags html)
         \<lparr>open_graph = [], twitter = [], other_meta = [], title = [], description = []\<rparr>)"
  by (simp_all add: extract_meta_data_def Let_def split: option.splits)

lemma empty_content_buckets:
  "extract_meta_data empty_content_document =
     \<lparr>open_graph = [], twitter = [], other_meta = [], title = [], description = []\<rparr>"
  by (simp add: empty_content_document_def extract_meta_data_def meta_step_def meta_name_def
      description_tag_def)

text \<open>
  Claim C9 as stated fails: a tag with a property and a content attribute whose content is
  the empty string is dropped; no bucket receives it.
\<close>

theorem empty_content_dropped_counterexample:
  "meta_tags empty_content_document
     = [\<lparr>name_attr = None, property_attr = Some ''og:image'', content_attr = Some ''''\<rparr>] \<and>
   open_graph (extract_meta_data empty_content_document) = [] \<and>
   twitter (extract_meta_data empty_content_document) = [] \<and>
   other_meta (extract_meta_data empty_content_document) = []"
  by (simp add: empty_content_buckets) (simp add: empty_content_document_def)

text \<open>
  Claim C9, amended. The name of a tag is its \<^verbatim>\<open>name\<close> attribute or, when that is missing
  or empty, its \<^verbatim>\<open>property\<close> attribute. A name is a key of the open-graph bucket exactly when
  it starts with \<^verbatim>\<open>og:\<close> and some tag has it with a non-empty content; of the twitter bucket
  when it starts with \<^verbatim>\<open>twitter:\<close> instead; of the bucket of other tags when it starts with
  neither. Every value of a bucket is the non-empty content of a tag of that name. Tags whose
  name or content is missing or empty are skipped.
\<close>

theorem meta_buckets_by_prefix:
  "(n \<in> fst ` set (open_graph (extract_meta_data html)) \<longleftrightarrow>
      prefix ''og:'' n \<and>
      (\<exists>m\<in>set (meta_tags html). \<exists>c.
          meta_name m = Some n \<and> content_attr m = Some c \<and> n \<noteq> [] \<and> c \<noteq> []))
   \<and>
   (n \<in> fst ` set (twitter (extract_meta_data html)) \<longleftrightarrow>
      \<not> prefix ''og:'' n \<and> prefix ''twitter:'' n \<and>
      (\<exists>m\<in>set (meta_tags html). \<exists>c.
          meta_name m = Some n \<and> content_attr m = Some c \<and> n \<noteq> [] \<and> c \<noteq> []))
   \<and>
   (n \<in> fst ` set (other_meta (extract_meta_data html)) \<longleftrightarrow>
      \<not> prefix ''og:'' n \<and> \<not> prefix ''twitter:'' n \<and>
      (\<exists>m\<in>set (meta_tags html). \<exists>c.
          meta_name m = Some n \<and> content_attr m = Some c \<and> n \<noteq> [] \<and> c \<noteq> []))
   \<and>
   (map_of (open_graph (extract_meta_data html)) n = Some c \<or>
    map_of (twitter (extract_meta_data html)) n = Some c \<or>
    map_of (other_meta (extract_meta_data html)) n = Some c \<longrightarrow>
      c \<noteq> [] \<and> (\<exists>m\<in>set (meta_tags html). meta_name m = Some n \<and> content_attr m = Some c))"
proof -
  let ?init = "\<lparr>open_graph = [], twitter = [], other_meta = [], title = [], description = []\<rparr>"
  have v1: "map_of (open_graph (extract_meta_data html)) n = Some c \<Longrightarrow>
      c \<noteq> [] \<and> (\<exists>m\<in>set (meta_tags html). meta_name m = Some n \<and> content_attr m = Some c)"
    using open_graph_values[of "meta_tags html" ?init n c]
    by (simp add: extract_meta_data_buckets)
  have v2: "map_of (twitter (extract_meta_data html)) n = Some c \<Longrightarrow>
      c \<noteq> [] \<and> (\<exists>m\<in>set (meta_tags html). meta_name m = Some n \<and> content_attr m = Some c)"
    using twitter_values[of "meta_tags html" ?init n c]
    by (simp add: extract_meta_data_buckets)
  have v3: "map_of (other_meta (extract_meta_data html)) n = Some c \<Longrightarrow>
      c \<noteq> [] \<and> (\<exists>m\<in>set (meta_tags html). meta_name m = Some n \<and> content_attr m = Some c)"
    using other_meta_values[of "meta_tags html" ?init n c]
    by (simp add: extract_meta_data_buckets)
  have k1: "n \<in> fst ` set (open_graph (extract_meta_data html)) \<longleftrightarrow>
      prefix ''og:'' n \<and>
      (\<exists>m\<in>set (meta_tags html). \<exists>c.
          meta_name m = Some n \<and> content_attr m = Some c \<and> n \<noteq> [] \<and> c \<noteq> [])"
    by (simp add: extract_meta_data_buckets open_graph_keys)
  have k2: "n \<in> fst ` set (twitter (extract_meta_data html)) \<longleftrightarrow>
      \<not> prefix ''og:'' n \<and> prefix ''twitter:'' n \<and>
      (\<exists>m\<in>set (meta_tags html). \<exists>c.
          meta_name m = Some n \<and> content_attr m = Some c \<and> n \<noteq> [] \<and> c \<noteq> [])"
    by (simp add: extract_meta_data_buckets twitter_keys)
  have k3: "n \<in> fst ` set (other_meta (extract_meta_data html)) \<longleftrightarrow>
      \<not> prefix ''og:'' n \<and> \<not> prefix ''twitter:'' n \<and>
      (\<exists>m\<in>set (meta_tags html). \<exists>c.
          meta_name m = Some n \<and> content_attr m = Some c \<and> n \<noteq> [] \<and> c \<noteq> [])"
    by (simp add: extract_meta_data_buckets other_meta_keys)
  show ?thesis using k1 k2 k3 v1 v2 v3 by blast
qed

lemma head_document_meta:
  "extract_meta_data head_document =
     \<lparr>open_graph = [(''og:title'', ''Ada'')], twitter = [(''twitter:card'', ''summary'')],
      other_meta = [(''description'', ''A profile'')], title = ''Ada | LinkedIn'',
      description = ''A profile''\<rparr>"
  by (simp add: head_document_def extract_meta_data_def meta_step_def meta_name_def
      description_tag_def)

text \<open>
  On \<open>head_document\<close> each of the three named tags is in its bucket, and the tag
  \<^verbatim>\<open>og:image\<close> with the empty content is in none.
\<close>

theorem meta_buckets_by_prefix_witness:
  "map_of (open_graph (extract_meta_data head_document)) ''og:title'' = Some ''Ada'' \<and>
   ''Ada'' \<noteq> [] \<and>
   (\<exists>m\<in>set (meta_tags head_document).
       meta_name m = Some ''og:title'' \<and> content_attr m = Some ''Ada'') \<and>
   ''og:title'' \<in> fst ` set (open_graph (extract_meta_data head_document)) \<and>
   ''twitter:card'' \<in> fst ` set (twitter (extract_meta_data head_document)) \<and>
   ''description'' \<in> fst ` set (other_meta (extract_meta_data head_document)) \<and>
   ''og:image'' \<notin> fst ` set (open_graph (extract_meta_data head_document))"
proof -
  have a: "map_of (open_graph (extract_meta_data head_document)) ''og:title'' = Some ''Ada''"
    by (simp add: head_document_meta)
  have b: "''og:title'' \<in> fst ` set (open_graph (extract_meta_data head_document)) \<and>
   ''twitter:card'' \<in> fst ` set (twitter (extract_meta_data head_document)) \<and>
   ''description'' \<in> fst ` set (other_meta (extract_meta_data head_document)) \<and>
   ''og:image'' \<notin> fst ` set (open_graph (extract_meta_data head_document))"
    by (simp add: head_document_meta)
  from meta_buckets_by_prefix[of "''og:title''" head_document "''Ada''"] a
  have "''Ada'' \<noteq> [] \<and>
   (\<exists>m\<in>set (meta_tags head_document).
       meta_name m = Some ''og:title'' \<and> content_attr m = Some ''Ada'')"
    by blast
  with a b show ?thesis by blast
qed

subsection \<open>Keys touched by the steps of the reconciler\<close>

lemma map_of_add_open_graph:
  "k \<notin> {''og_title'', ''og_description'', ''og_image'', ''og_url'', ''og_type''} \<Longrightarrow>
   map_of (add_open_graph md d) k = map_of d k"
  by (simp add: add_open_graph_def Let_def map_of_dict_set)

lemma map_of_add_twitter:
  "k \<notin> {''twitter_title'', ''twitter_description'', ''twitter_image''} \<Longrightarrow>
   map_of (add_twitter md d) k = map_of d k"
  by (simp add: add_twitter_def Let_def map_of_dict_set)

lemma map_of_add_page:
  "k \<notin> {''page_title'', ''page_description''} \<Longrightarrow> map_of (add_page md d) k = map_of d k"
  by (simp add: add_page_def map_of_dict_set)

lemma map_of_supplement:
  "k \<notin> {''og_title'', ''og_description'', ''og_image'', ''og_url'', ''og_type'',
          ''twitter_title'', ''twitter_description'', ''twitter_image'',
          ''page_title'', ''page_description''} \<Longrightarrow>
   map_of (add_page md (add_twitter md (add_open_graph md d))) k = map_of d k"
  by (simp add: map_of_add_page map_of_add_twitter map_of_add_open_graph)

lemma map_of_username_backfill:
  "k \<noteq> ''username'' \<Longrightarrow> map_of (username_backfill url_type page_url d) k = map_of d k"
  by (simp add: username_backfill_def username_from_url_def map_of_dict_set
      split: option.splits)

lemma newsletter_fallback_off:
  "\<not> (url_type = ''newsletter'' \<and> \<not> found jl \<and> open_graph md \<noteq> []) \<Longrightarrow>
   newsletter_fallback url_type jl md d = d"
  by (auto simp: newsletter_fallback_def Let_def)

lemma newsletter_fallback_on:
  assumes "url_type = ''newsletter''" and "\<not> found jl" and "open_graph md \<noteq> []"
  shows "map_of (newsletter_fallback url_type jl md d) ''name''
           = Some (JStr (newsletter_name
                (case map_of (open_graph md) ''og:title'' of Some v \<Rightarrow> v | None \<Rightarrow> [])))"
    and "map_of (newsletter_fallback url_type jl md d) ''description''
           = Some (bucket_get (open_graph md) ''og:description'')"
    and "map_of (newsletter_fallback url_type jl md d) ''image_url''
           = Some (bucket_get (open_graph md) ''og:image'')"
    and "map_of (newsletter_fallback url_type jl md d) ''url''
           = Some (bucket_get (open_graph md) ''og:url'')"
    and "map_of (newsletter_fallback url_type jl md d) ''author''
           = Some (JObj [(''name'', JStr ''N/A''), (''url'', JStr ''N/A'')])"
    and "map_of (newsletter_fallback url_type jl md d) ''date_published'' = Some (JStr ''N/A'')"
  using assms by (simp_all add: newsletter_fallback_def Let_def map_of_dict_set)

lemma newsletter_name_cases:
  "newsletter_name t =
     (if CHR ''|'' \<in> set t then str_strip (takeWhile (\<lambda>c. c \<noteq> CHR ''|'') t) else t)"
  by (auto simp: newsletter_name_def)

subsection \<open>C7: the newsletter fallback\<close>

lemma bare_meta_combined:
  "combine_data_sources json_ld_init bare_meta ''newsletter''
     ''https://www.linkedin.com/newsletters/ai-insider-7''
   = [(''page_title'', JStr ''News''), (''page_description'', JStr ''''),
      (''username'', JStr ''ai-insider-7'')]"
proof -
  have u: "re_search_segment ''linkedin.com/newsletters/''
             ''https://www.linkedin.com/newsletters/ai-insider-7'' = Some ''ai-insider-7''"
    by code_simp
  show ?thesis
    by (simp add: combine_data_sources_def json_ld_init_def bare_meta_def seed_json_ld_def
        add_open_graph_def add_twitter_def add_page_def newsletter_fallback_def
        username_backfill_def username_from_url_def dict_set_def dict_get_def u
        del: re_search_segment.simps)
qed

text \<open>
  Claim C7 as stated fails: for a newsletter without structured data and without any
  social-preview tag, no primary field is synthesized, not even the sentinels.
\<close>

theorem newsletter_fallback_needs_og_counterexample:
  "\<not> found json_ld_init \<and> open_graph bare_meta = [] \<and>
   map_of (combine_data_sources json_ld_init bare_meta ''newsletter''
             ''https://www.linkedin.com/newsletters/ai-insider-7'') ''name'' = None \<and>
   map_of (combine_data_sources json_ld_init bare_meta ''newsletter''
             ''https://www.linkedin.com/newsletters/ai-insider-7'') ''author'' = None \<and>
   map_of (combine_data_sources json_ld_init bare_meta ''newsletter''
             ''https://www.linkedin.com/newsletters/ai-insider-7'') ''date_published'' = None"
  by (simp add: bare_meta_combined) (simp add: json_ld_init_def bare_meta_def)

text \<open>
  Claim C7, amended. The fallback synthesizes the primary fields if and only if the URL
  type is \<^verbatim>\<open>newsletter\<close>, no structured data was found and the social-preview bucket is not
  empty. When it fires, \<^verbatim>\<open>name\<close> is the social-preview title up to its first vertical bar,
  with the white space at both ends removed (every code point that \<^verbatim>\<open>str.isspace\<close> accepts,
  the no-break space among them), or the whole title when it has no bar;
  \<^verbatim>\<open>description\<close>, \<^verbatim>\<open>image_url\<close> and \<^verbatim>\<open>url\<close> are the bucket's description, image and URL (the
  empty string when missing); \<^verbatim>\<open>author\<close> and \<^verbatim>\<open>date_published\<close> are the sentinels. When it
  does not fire, each of these six fields is what the structured data seeded, if anything.
\<close>

theorem newsletter_fallback_iff:
  "(url_type = ''newsletter'' \<and> \<not> found jl \<and> open_graph md \<noteq> [] \<longrightarrow>
      (let c = combine_data_sources jl md url_type page_url;
           t = (case map_of (open_graph md) ''og:title'' of Some v \<Rightarrow> v | None \<Rightarrow> [])
       in map_of c ''name''
            = Some (JStr (if CHR ''|'' \<in> set t
                          then str_strip (takeWhile (\<lambda>x. x \<noteq> CHR ''|'') t) else t)) \<and>
          map_of c ''description'' = Some (bucket_get (open_graph md) ''og:description'') \<and>
          map_of c ''image_url'' = Some (bucket_get (open_graph md) ''og:image'') \<and>
          map_of c ''url'' = Some (bucket_get (open_graph md) ''og:url'') \<and>
          map_of c ''author'' = Some (JObj [(''name'', JStr ''N/A''), (''url'', JStr ''N/A'')]) \<and>
          map_of c ''date_published'' = Some (JStr ''N/A'')))
   \<and>
   (\<not> (url_type = ''newsletter'' \<and> \<not> found jl \<and> open_graph md \<noteq> []) \<and>
    k \<in> {''name'', ''description'', ''image_url'', ''url'', ''author'', ''date_published''} \<longrightarrow>
      map_of (combine_data_sources jl md url_type page_url) k = map_of (seed_json_ld jl) k \<and>
      (\<not> found jl \<longrightarrow> map_of (combine_data_sources jl md url_type page_url) k = None))"
proof -
  have on: "url_type = ''newsletter'' \<and> \<not> found jl \<and> open_graph md \<noteq> [] \<Longrightarrow>
      (let c = combine_data_sources jl md url_type page_url;
           t = (case map_of (open_graph md) ''og:title'' of Some v \<Rightarrow> v | None \<Rightarrow> [])
       in map_of c ''name''
            = Some (JStr (if CHR ''|'' \<in> set t
                          then str_strip (takeWhile (\<lambda>x. x \<noteq> CHR ''|'') t) else t)) \<and>
          map_of c ''description'' = Some (bucket_get (open_graph md) ''og:description'') \<and>
          map_of c ''image_url'' = Some (bucket_get (open_graph md) ''og:image'') \<and>
          map_of c ''url'' = Some (bucket_get (open_graph md) ''og:url'') \<and>
          map_of c ''author'' = Some (JObj [(''name'', JStr ''N/A''), (''url'', JStr ''N/A'')]) \<and>
          map_of c ''date_published'' = Some (JStr ''N/A''))"
    by (simp add: combine_data_sources_def Let_def map_of_username_backfill
        newsletter_fallback_on newsletter_name_cases)
  have off: "\<not> (url_type = ''newsletter'' \<and> \<not> found jl \<and> open_graph md \<noteq> []) \<Longrightarrow>
    k \<in> {''name'', ''description'', ''image_url'', ''url'', ''author'', ''date_published''} \<Longrightarrow>
      map_of (combine_data_sources jl md url_type page_url) k = map_of (seed_json_ld jl) k"
    by (auto simp: combine_data_sources_def map_of_username_backfill newsletter_fallback_off
        map_of_supplement)
  have none: "\<not> found jl \<Longrightarrow> map_of (seed_json_ld jl) k = None"
    by (simp add: seed_json_ld_def)
  have off': "\<not> (url_type = ''newsletter'' \<and> \<not> found jl \<and> open_graph md \<noteq> []) \<and>
    k \<in> {''name'', ''description'', ''image_url'', ''url'', ''author'', ''date_published''} \<longrightarrow>
      map_of (combine_data_sources jl md url_type page_url) k = map_of (seed_json_ld jl) k \<and>
      (\<not> found jl \<longrightarrow> map_of (combine_data_sources jl md url_type page_url) k = None)"
    using off none by metis
  show ?thesis using on off' by blast
qed

lemma strip_nbsp_example:
  "str_strip [CHR ''A'', CHR ''I'', CHR '' '', CHR ''I'', CHR ''n'', CHR ''s'', CHR ''i'',
              CHR ''d'', CHR ''e'', CHR ''r'', CHR 0xC2, CHR 0xA0] = ''AI Insider''"
  by code_simp

text \<open>
  The cases of C7: the newsletter landing page without structured data, where the fallback
  fires; a title with a no-break space before the bar, which is removed from the name; the
  same meta data with structured data found but empty, and a post without structured data,
  where the fallback does not fire.
\<close>

theorem newsletter_fallback_iff_witness:
  "(\<not> found json_ld_init \<and> open_graph newsletter_meta \<noteq> [] \<and>
    map_of (combine_data_sources json_ld_init newsletter_meta ''newsletter''
              ''https://www.linkedin.com/newsletters/ai-insider-7'') ''name''
      = Some (JStr ''AI Insider'') \<and>
    map_of (combine_data_sources json_ld_init newsletter_meta ''newsletter''
              ''https://www.linkedin.com/newsletters/ai-insider-7'') ''author''
      = Some (JObj [(''name'', JStr ''N/A''), (''url'', JStr ''N/A'')]) \<and>
    map_of (combine_data_sources json_ld_init newsletter_meta ''newsletter''
              ''https://www.linkedin.com/newsletters/ai-insider-7'') ''date_published''
      = Some (JStr ''N/A''))
   \<and>
   (open_graph nbsp_meta \<noteq> [] \<and>
    map_of (combine_data_sources json_ld_init nbsp_meta ''newsletter''
              ''https://www.linkedin.com/newsletters/ai-insider-7'') ''name''
      = Some (JStr ''AI Insider''))
   \<and>
   (found found_empty \<and>
    ''name'' \<in> {''name'', ''description'', ''image_url'', ''url'', ''author'', ''date_published''} \<and>
    map_of (combine_data_sources found_empty newsletter_meta ''newsletter''
              ''https://www.linkedin.com/newsletters/ai-insider-7'') ''name'' = None)
   \<and>
   (''post'' \<noteq> ''newsletter'' \<and> \<not> found json_ld_init \<and>
    map_of (combine_data_sources json_ld_init newsletter_meta ''post''
              ''https://www.linkedin.com/posts/ada-1'') ''author'' = None)"
proof -
  have a: "\<not> found json_ld_init \<and> open_graph newsletter_meta \<noteq> []"
    by (simp add: json_ld_init_def newsletter_meta_def)
  have t: "(case map_of (open_graph newsletter_meta) ''og:title'' of Some v \<Rightarrow> v | None \<Rightarrow> [])
             = ''AI Insider | LinkedIn''"
    by (simp add: newsletter_meta_def)
  have a': "open_graph nbsp_meta \<noteq> []" by (simp add: nbsp_meta_def)
  have t': "(case map_of (open_graph nbsp_meta) ''og:title'' of Some v \<Rightarrow> v | None \<Rightarrow> [])
             = ''AI Insider'' @ [CHR 0xC2, CHR 0xA0] @ ''| LinkedIn''"
    by (simp add: nbsp_meta_def)
  have b: "found found_empty" by (simp add: found_empty_def)
  have s: "map_of (seed_json_ld found_empty) ''name'' = None"
    by (simp add: seed_json_ld_def found_empty_def dict_update_def)
  have s0: "map_of (seed_json_ld json_ld_init) ''author'' = None"
    by (simp add: seed_json_ld_def json_ld_init_def)
  note on = newsletter_fallback_iff[of "''newsletter''" json_ld_init newsletter_meta
      "''https://www.linkedin.com/newsletters/ai-insider-7''" "''name''"]
  note on' = newsletter_fallback_iff[of "''newsletter''" json_ld_init nbsp_meta
      "''https://www.linkedin.com/newsletters/ai-insider-7''" "''name''"]
  note off1 = newsletter_fallback_iff[of "''newsletter''" found_empty newsletter_meta
      "''https://www.linkedin.com/newsletters/ai-insider-7''" "''name''"]
  note off2 = newsletter_fallback_iff[of "''post''" json_ld_init newsletter_meta
      "''https://www.linkedin.com/posts/ada-1''" "''author''"]
  have r1: "map_of (combine_data_sources json_ld_init newsletter_meta ''newsletter''
              ''https://www.linkedin.com/newsletters/ai-insider-7'') ''name''
      = Some (JStr ''AI Insider'') \<and>
    map_of (combine_data_sources json_ld_init newsletter_meta ''newsletter''
              ''https://www.linkedin.com/newsletters/ai-insider-7'') ''author''
      = Some (JObj [(''name'', JStr ''N/A''), (''url'', JStr ''N/A'')]) \<and>
    map_of (combine_data_sources json_ld_init newsletter_meta ''newsletter''
              ''https://www.linkedin.com/newsletters/ai-insider-7'') ''date_published''
      = Some (JStr ''N/A'')"
    using on a by (simp add: Let_def t strip_example)
  have r1': "map_of (combine_data_sources json_ld_init nbsp_meta ''newsletter''
              ''https://www.linkedin.com/newsletters/ai-insider-7'') ''name''
      = Some (JStr ''AI Insider'')"
    using on' a a' by (simp add: Let_def t' strip_nbsp_example)
  have r2: "map_of (combine_data_sources found_empty newsletter_meta ''newsletter''
              ''https://www.linkedin.com/newsletters/ai-insider-7'') ''name'' = None"
    using off1 b s by simp
  have r3: "map_of (combine_data_sources json_ld_init newsletter_meta ''post''
              ''https://www.linkedin.com/posts/ada-1'') ''author'' = None"
    using off2 a s0 by simp
  show ?thesis using a a' b r1 r1' r2 r3 by simp
qed

subsection \<open>C8: the identifier taken from the URL\<close>

lemma segment_chars_split:
  "s = segment_chars s @ dropWhile (\<lambda>c. c \<noteq> CHR ''/'' \<and> c \<noteq> CHR ''?'') s"
  by (simp add: segment_chars_def)

lemma segment_chars_set: "c \<in> set (segment_chars s) \<Longrightarrow> c \<noteq> CHR ''/'' \<and> c \<noteq> CHR ''?''"
  by (auto simp: segment_chars_def dest: set_takeWhileD)

lemma segment_chars_stop:
  "dropWhile (\<lambda>c. c \<noteq> CHR ''/'' \<and> c \<noteq> CHR ''?'') s = [] \<or>
   hd (dropWhile (\<lambda>c. c \<noteq> CHR ''/'' \<and> c \<noteq> CHR ''?'') s) = CHR ''/'' \<or>
   hd (dropWhile (\<lambda>c. c \<noteq> CHR ''/'' \<and> c \<noteq> CHR ''?'') s) = CHR ''?''"
  using hd_dropWhile[of "\<lambda>c. c \<noteq> CHR ''/'' \<and> c \<noteq> CHR ''?''" s] by blast

lemma re_search_segment_Some:
  "re_search_segment lit s = Some seg \<Longrightarrow>
   seg \<noteq> [] \<and> (\<forall>c\<in>set seg. c \<noteq> CHR ''/'' \<and> c \<noteq> CHR ''?'') \<and>
   (\<exists>pre rest. s = pre @ lit @ seg @ rest \<and>
       (rest = [] \<or> hd rest = CHR ''/'' \<or> hd rest = CHR ''?''))"
proof (induction s)
  case Nil
  then show ?case by simp
next
  case (Cons c cs)
  let ?tail = "drop (length lit) (c # cs)"
  show ?case
  proof (cases "prefix lit (c # cs) \<and> segment_chars ?tail \<noteq> []")
    case True
    then have seg: "seg = segment_chars ?tail" using Cons.prems by simp
    from True obtain zs where zs: "c # cs = lit @ zs" by (auto simp: prefix_def)
    then have tl: "?tail = zs" by simp
    let ?rest = "dropWhile (\<lambda>c. c \<noteq> CHR ''/'' \<and> c \<noteq> CHR ''?'') zs"
    have "c # cs = [] @ lit @ seg @ ?rest"
      using zs seg tl segment_chars_split[of zs] by simp
    moreover have "?rest = [] \<or> hd ?rest = CHR ''/'' \<or> hd ?rest = CHR ''?''"
      by (rule segment_chars_stop)
    ultimately have ex: "\<exists>pre rest. c # cs = pre @ lit @ seg @ rest \<and>
       (rest = [] \<or> hd rest = CHR ''/'' \<or> hd rest = CHR ''?'')"
      by blast
    have ne: "seg \<noteq> []" using True seg by simp
    have cs: "\<forall>c\<in>set seg. c \<noteq> CHR ''/'' \<and> c \<noteq> CHR ''?''"
      unfolding seg by (intro ballI) (rule segment_chars_set)
    show ?thesis by (intro conjI) (rule ne, rule cs, rule ex)
  next
    case False
    then have "re_search_segment lit cs = Some seg" using Cons.prems by (simp split: if_splits)
    from Cons.IH[OF this] obtain pre rest where
      a: "seg \<noteq> []" "\<forall>c\<in>set seg. c \<noteq> CHR ''/'' \<and> c \<noteq> CHR ''?''"
      and b: "cs = pre @ lit @ seg @ rest" "rest = [] \<or> hd rest = CHR ''/'' \<or> hd rest = CHR ''?''"
      by blast
    from b have "c # cs = (c # pre) @ lit @ seg @ rest" by simp
    with a b(2) show ?thesis by blast
  qed
qed

lemma re_search_segment_finds:
  "seg \<noteq> [] \<Longrightarrow> hd seg \<noteq> CHR ''/'' \<Longrightarrow> hd seg \<noteq> CHR ''?'' \<Longrightarrow>
   re_search_segment lit (pre @ lit @ seg @ rest) \<noteq> None"
proof (induction pre)
  case Nil
  obtain x xs where seg: "seg = x # xs" using Nil.prems(1) by (cases seg) auto
  then have x: "x \<noteq> CHR ''/'' \<and> x \<noteq> CHR ''?''" using Nil.prems by simp
  obtain c cs where ccs: "lit @ seg @ rest = c # cs" using seg by (cases "lit @ seg @ rest") auto
  have "prefix lit (c # cs)" using ccs by (metis prefixI)
  moreover have "drop (length lit) (c # cs) = seg @ rest" using ccs by (metis append_eq_conv_conj)
  then have "segment_chars (drop (length lit) (c # cs)) \<noteq> []"
    using seg x by (simp add: segment_chars_def)
  ultimately show ?case using ccs by simp
next
  case (Cons p pre)
  then show ?case by simp
qed

lemma map_of_newsletter_fallback:
  "k \<notin> {''name'', ''description'', ''image_url'', ''url'', ''author'', ''date_published''} \<Longrightarrow>
   map_of (newsletter_fallback url_type jl md d) k = map_of d k"
  by (simp add: newsletter_fallback_def Let_def map_of_dict_set)

lemma username_before_backfill:
  "map_of (newsletter_fallback url_type jl md
             (add_page md (add_twitter md (add_open_graph md (seed_json_ld jl))))) ''username''
     = map_of (seed_json_ld jl) ''username''"
  by (simp add: map_of_newsletter_fallback map_of_supplement)

lemma dict_get_cong: "map_of d k = map_of d' k \<Longrightarrow> dict_get d k x = dict_get d' k x"
  by (simp add: dict_get_def)

lemma map_of_username_from_url:
  "map_of (username_from_url lit page_url d) ''username'' =
     (case re_search_segment lit page_url of
        Some seg \<Rightarrow> Some (JStr seg)
      | None \<Rightarrow> map_of d ''username'')"
  by (simp add: username_from_url_def map_of_dict_set split: option.splits)

lemma username_backfill_cases:
  assumes "\<not> py_truthy (dict_get d ''username'' JNull)"
  shows "username_backfill ''profile'' page_url d
           = username_from_url ''linkedin.com/in/'' page_url d"
    and "username_backfill ''company'' page_url d
           = username_from_url ''linkedin.com/company/'' page_url d"
    and "username_backfill ''newsletter'' page_url d
           = username_from_url ''linkedin.com/newsletters/'' page_url d"
  using assms by (simp_all add: username_backfill_def)

lemma username_backfill_applies:
  assumes "\<not> py_truthy (dict_get (seed_json_ld jl) ''username'' JNull)"
    and "(url_type, lit) \<in> {(''profile'', ''linkedin.com/in/''),
                             (''company'', ''linkedin.com/company/''),
                             (''newsletter'', ''linkedin.com/newsletters/'')}"
  shows "map_of (combine_data_sources jl md url_type page_url) ''username'' =
           (case re_search_segment lit page_url of
              Some seg \<Rightarrow> Some (JStr seg)
            | None \<Rightarrow> map_of (seed_json_ld jl) ''username'')"
proof -
  define d where "d = newsletter_fallback url_type jl md
             (add_page md (add_twitter md (add_open_graph md (seed_json_ld jl))))"
  have m: "map_of d ''username'' = map_of (seed_json_ld jl) ''username''"
    unfolding d_def by (rule username_before_backfill)
  have "dict_get d ''username'' JNull = dict_get (seed_json_ld jl) ''username'' JNull"
    by (rule dict_get_cong) (rule m)
  then have f: "\<not> py_truthy (dict_get d ''username'' JNull)" using assms(1) by simp
  have c: "combine_data_sources jl md url_type page_url = username_backfill url_type page_url d"
    by (simp add: combine_data_sources_def d_def)
  from assms(2) consider
      "url_type = ''profile''" "lit = ''linkedin.com/in/''"
    | "url_type = ''company''" "lit = ''linkedin.com/company/''"
    | "url_type = ''newsletter''" "lit = ''linkedin.com/newsletters/''"
    by blast
  then have "username_backfill url_type page_url d = username_from_url lit page_url d"
  proof cases
    case 1
    then show ?thesis using username_backfill_cases(1)[OF f] by simp
  next
    case 2
    then show ?thesis using username_backfill_cases(2)[OF f] by simp
  next
    case 3
    then show ?thesis using username_backfill_cases(3)[OF f] by simp
  qed
  then show ?thesis by (simp only: c map_of_username_from_url m)
qed

lemma username_backfill_id:
  "url_type \<notin> {''profile'', ''company'', ''newsletter''} \<or>
     py_truthy (dict_get d ''username'' JNull) \<Longrightarrow>
   username_backfill url_type page_url d = d"
  by (cases "py_truthy (dict_get d ''username'' JNull)") (auto simp: username_backfill_def)

lemma username_backfill_skipped:
  assumes "url_type \<notin> {''profile'', ''company'', ''newsletter''} \<or>
           py_truthy (dict_get (seed_json_ld jl) ''username'' JNull)"
  shows "map_of (combine_data_sources jl md url_type page_url) ''username''
           = map_of (seed_json_ld jl) ''username''"
proof -
  define d where "d = newsletter_fallback url_type jl md
             (add_page md (add_twitter md (add_open_graph md (seed_json_ld jl))))"
  have m: "map_of d ''username'' = map_of (seed_json_ld jl) ''username''"
    unfolding d_def by (rule username_before_backfill)
  have g: "dict_get d ''username'' JNull = dict_get (seed_json_ld jl) ''username'' JNull"
    by (rule dict_get_cong) (rule m)
  have "url_type \<notin> {''profile'', ''company'', ''newsletter''} \<or>
     py_truthy (dict_get d ''username'' JNull)"
    using assms unfolding g .
  then have "username_backfill url_type page_url d = d" by (rule username_backfill_id)
  then show ?thesis by (simp add: combine_data_sources_def d_def[symmetric] m)
qed

lemma jdoe_example:
  "re_search_segment ''linkedin.com/in/'' ''https://www.linkedin.com/in/jdoe?trk=abc''
     = Some ''jdoe''"
  by code_simp

text \<open>
  Claim C8. When the combined record has no identifier (\<^verbatim>\<open>combined_data.get('username')\<close> is
  missing or falsy; no other step of the reconciler writes that key, so this is the value
  seeded from the structured data), the reconciler stores the segment that the pattern of
  the URL type finds in the document URL: after \<^verbatim>\<open>linkedin.com/in/\<close> for a profile, after
  \<^verbatim>\<open>linkedin.com/company/\<close> for an organization, after \<^verbatim>\<open>linkedin.com/newsletters/\<close> for a
  newsletter; without a match the record keeps what it had. For any other URL type, posts
  included, and for a record that already has an identifier, the identifier is left as
  seeded. The segment found is not empty, holds neither \<^verbatim>\<open>/\<close> nor \<^verbatim>\<open>?\<close>, follows the
  pattern's literal in the URL and ends at the end of the URL, at a \<^verbatim>\<open>/\<close> or at a \<^verbatim>\<open>?\<close>; and
  a segment is found whenever the literal is followed by a character other than these two.
\<close>

theorem username_backfill_from_url:
  "(\<not> py_truthy (dict_get (seed_json_ld jl) ''username'' JNull) \<and>
    (url_type, lit) \<in> {(''profile'', ''linkedin.com/in/''),
                        (''company'', ''linkedin.com/company/''),
                        (''newsletter'', ''linkedin.com/newsletters/'')} \<longrightarrow>
      map_of (combine_data_sources jl md url_type page_url) ''username'' =
        (case re_search_segment lit page_url of
           Some seg \<Rightarrow> Some (JStr seg)
         | None \<Rightarrow> map_of (seed_json_ld jl) ''username''))
   \<and>
   (url_type \<notin> {''profile'', ''company'', ''newsletter''} \<or>
    py_truthy (dict_get (seed_json_ld jl) ''username'' JNull) \<longrightarrow>
      map_of (combine_data_sources jl md url_type page_url) ''username''
        = map_of (seed_json_ld jl) ''username'')
   \<and>
   (re_search_segment lit page_url = Some found_seg \<longrightarrow>
      found_seg \<noteq> [] \<and> (\<forall>c\<in>set found_seg. c \<noteq> CHR ''/'' \<and> c \<noteq> CHR ''?'') \<and>
      (\<exists>pre rest. page_url = pre @ lit @ found_seg @ rest \<and>
          (rest = [] \<or> hd rest = CHR ''/'' \<or> hd rest = CHR ''?'')))
   \<and>
   (s \<noteq> [] \<and> hd s \<noteq> CHR ''/'' \<and> hd s \<noteq> CHR ''?'' \<longrightarrow>
      re_search_segment lit (before @ lit @ s @ after) \<noteq> None)"
  using username_backfill_applies[of jl url_type lit md page_url]
    username_backfill_skipped[of url_type jl md page_url]
    re_search_segment_Some[of lit page_url found_seg]
    re_search_segment_finds[of s lit before after]
  by blast

text \<open>
  The example of the specification, \<^verbatim>\<open>.../in/jdoe?trk=abc\<close>: a profile without identifier
  gets \<^verbatim>\<open>jdoe\<close>; a post gets none; a profile whose structured data carries an identifier
  keeps it.
\<close>

theorem username_backfill_from_url_witness:
  "(\<not> py_truthy (dict_get (seed_json_ld json_ld_init) ''username'' JNull) \<and>
    map_of (combine_data_sources json_ld_init bare_meta ''profile''
              ''https://www.linkedin.com/in/jdoe?trk=abc'') ''username'' = Some (JStr ''jdoe''))
   \<and>
   (''post'' \<notin> {''profile'', ''company'', ''newsletter''} \<and>
    map_of (combine_data_sources json_ld_init bare_meta ''post''
              ''https://www.linkedin.com/in/jdoe?trk=abc'') ''username'' = None)
   \<and>
   (py_truthy (dict_get (seed_json_ld seeded_username) ''username'' JNull) \<and>
    map_of (combine_data_sources seeded_username bare_meta ''profile''
              ''https://www.linkedin.com/in/jdoe?trk=abc'') ''username'' = Some (JStr ''ada''))
   \<and>
   (re_search_segment ''linkedin.com/in/'' ''https://www.linkedin.com/in/jdoe?trk=abc''
      = Some ''jdoe'' \<and>
    (\<exists>pre rest. ''https://www.linkedin.com/in/jdoe?trk=abc''
                   = pre @ ''linkedin.com/in/'' @ ''jdoe'' @ rest \<and>
        (rest = [] \<or> hd rest = CHR ''/'' \<or> hd rest = CHR ''?'')))
   \<and>
   (''jdoe'' \<noteq> [] \<and> hd ''jdoe'' \<noteq> CHR ''/'' \<and> hd ''jdoe'' \<noteq> CHR ''?'' \<and>
    re_search_segment ''linkedin.com/in/''
      (''https://www.'' @ ''linkedin.com/in/'' @ ''jdoe'' @ ''?trk=abc'') \<noteq> None)"
proof -
  have s0: "map_of (seed_json_ld json_ld_init) ''username'' = None"
    by (simp add: seed_json_ld_def json_ld_init_def)
  have a: "\<not> py_truthy (dict_get (seed_json_ld json_ld_init) ''username'' JNull)"
    by (simp add: dict_get_def s0)
  have m: "(''profile'', ''linkedin.com/in/'') \<in> {(''profile'', ''linkedin.com/in/''),
                        (''company'', ''linkedin.com/company/''),
                        (''newsletter'', ''linkedin.com/newsletters/'')}"
    by simp
  have p: "''post'' \<notin> {''profile'', ''company'', ''newsletter''}" by simp
  have s1: "map_of (seed_json_ld seeded_username) ''username'' = Some (JStr ''ada'')"
    by (simp add: seed_json_ld_def seeded_username_def dict_update_def dict_set_def)
  have b: "py_truthy (dict_get (seed_json_ld seeded_username) ''username'' JNull)"
    by (simp add: dict_get_def s1)
  have j: "''jdoe'' \<noteq> [] \<and> hd ''jdoe'' \<noteq> CHR ''/'' \<and> hd ''jdoe'' \<noteq> CHR ''?''" by simp
  note t1 = username_backfill_from_url[of json_ld_init "''profile''" "''linkedin.com/in/''"
      bare_meta "''https://www.linkedin.com/in/jdoe?trk=abc''" "''jdoe''" "''jdoe''"
      "''https://www.''" "''?trk=abc''"]
  note t2 = username_backfill_from_url[of json_ld_init "''post''" "''linkedin.com/in/''"
      bare_meta "''https://www.linkedin.com/in/jdoe?trk=abc''" "''jdoe''" "''jdoe''"
      "''https://www.''" "''?trk=abc''"]
  note t3 = username_backfill_from_url[of seeded_username "''profile''" "''linkedin.com/in/''"
      bare_meta "''https://www.linkedin.com/in/jdoe?trk=abc''" "''jdoe''" "''jdoe''"
      "''https://www.''" "''?trk=abc''"]
  have r1: "map_of (combine_data_sources json_ld_init bare_meta ''profile''
              ''https://www.linkedin.com/in/jdoe?trk=abc'') ''username'' = Some (JStr ''jdoe'')"
    using conjunct1[OF t1] a m by (simp only: jdoe_example option.case simp_thms)
  have r2: "map_of (combine_data_sources json_ld_init bare_meta ''post''
              ''https://www.linkedin.com/in/jdoe?trk=abc'') ''username'' = None"
    using conjunct1[OF conjunct2[OF t2]] p by (simp only: s0 simp_thms)
  have r3: "map_of (combine_data_sources seeded_username bare_meta ''profile''
              ''https://www.linkedin.com/in/jdoe?trk=abc'') ''username'' = Some (JStr ''ada'')"
    using conjunct1[OF conjunct2[OF t3]] b by (simp only: s1 simp_thms)
  have r4: "\<exists>pre rest. ''https://www.linkedin.com/in/jdoe?trk=abc''
                   = pre @ ''linkedin.com/in/'' @ ''jdoe'' @ rest \<and>
        (rest = [] \<or> hd rest = CHR ''/'' \<or> hd rest = CHR ''?'')"
    using conjunct1[OF conjunct2[OF conjunct2[OF t1]]] jdoe_example by (simp only: simp_thms)
  have r5: "re_search_segment ''linkedin.com/in/''
      (''https://www.'' @ ''linkedin.com/in/'' @ ''jdoe'' @ ''?trk=abc'') \<noteq> None"
    using conjunct2[OF conjunct2[OF conjunct2[OF t1]]] j by (simp only: simp_thms)
  show ?thesis
    by (intro conjI) (rule a r1 p r2 b r3 jdoe_example r4 conjunct1[OF j]
        conjunct1[OF conjunct2[OF j]] conjunct2[OF conjunct2[OF j]] r5)+
qed

subsection \<open>C2: the scan of the linked-data scripts\<close>

lemma scripts_loop_skip:
  "\<forall>s\<in>set pre. \<forall>x. s = Some x \<longrightarrow> x = [] \<or> loads x = JSONDecodeError \<Longrightarrow>
   scripts_loop loads url_type (pre @ rest) jl = scripts_loop loads url_type rest jl"
proof (induction pre)
  case Nil
  then show ?case by simp
next
  case (Cons s pre)
  then show ?case by (cases s) auto
qed

lemma scripts_loop_none:
  "\<forall>s\<in>set ss. \<forall>x. s = Some x \<longrightarrow> x = [] \<or> loads x = JSONDecodeError \<Longrightarrow>
   scripts_loop loads url_type ss jl = jl"
  using scripts_loop_skip[of ss loads url_type "[]" jl] by simp

lemma extract_first_parsing:
  assumes "ld_json_scripts html = pre @ Some t # rest"
    and "\<forall>s\<in>set pre. \<forall>x. s = Some x \<longrightarrow> x = [] \<or> loads x = JSONDecodeError"
    and "t \<noteq> []" and "loads t = Loaded j"
  shows "extract_json_ld_data loads html url_type =
           \<lparr>found = True, raw_json = Some j,
            parsed_data = fst (parse_by_url_type url_type j),
            data_type = Some (snd (parse_by_url_type url_type j))\<rparr>"
  using assms
  by (simp add: extract_json_ld_data_def scripts_loop_skip json_ld_init_def)

lemma extract_other_error:
  assumes "ld_json_scripts html = pre @ Some t # rest"
    and "\<forall>s\<in>set pre. \<forall>x. s = Some x \<longrightarrow> x = [] \<or> loads x = JSONDecodeError"
    and "t \<noteq> []" and "loads t = OtherError"
  shows "extract_json_ld_data loads html url_type = json_ld_init"
  using assms
  by (simp add: extract_json_ld_data_def scripts_loop_skip)

lemma extract_none_parsing:
  assumes "\<forall>s\<in>set (ld_json_scripts html).
             \<forall>x. s = Some x \<longrightarrow> x = [] \<or> loads x = JSONDecodeError"
  shows "extract_json_ld_data loads html url_type = json_ld_init"
  using assms by (simp add: extract_json_ld_data_def scripts_loop_none)

lemma huge_number_text_facts:
  "huge_number_text \<noteq> []"
  "hd huge_number_text = CHR ''1''"
  by (simp_all add: huge_number_text_def)

lemma not_huge_number_text:
  "''{}'' \<noteq> huge_number_text"
  "person_text \<noteq> huge_number_text"
  "''{bad'' \<noteq> huge_number_text"
proof -
  have "hd ''{}'' \<noteq> hd huge_number_text" "hd person_text \<noteq> hd huge_number_text"
    "hd ''{bad'' \<noteq> hd huge_number_text"
    by (simp_all add: huge_number_text_facts person_text_def)
  then show "''{}'' \<noteq> huge_number_text" "person_text \<noteq> huge_number_text"
    "''{bad'' \<noteq> huge_number_text"
    by metis+
qed

lemma loads_table_simps:
  "loads_table ''{}'' = Loaded (JObj [])"
  "loads_table person_text = Loaded (JObj [(''@type'', JStr ''Person''), (''name'', JStr ''Ada'')])"
  "loads_table ''{bad'' = JSONDecodeError"
  "loads_table huge_number_text = OtherError"
  "person_text \<noteq> []"
proof -
  show "loads_table ''{}'' = Loaded (JObj [])"
    using not_huge_number_text(1) by (simp add: loads_table_def person_text_def)
  show "loads_table person_text
          = Loaded (JObj [(''@type'', JStr ''Person''), (''name'', JStr ''Ada'')])"
  proof -
    have "person_text \<noteq> ''{}''" by (simp add: person_text_def)
    then show ?thesis using not_huge_number_text(2) by (simp add: loads_table_def)
  qed
  show "loads_table ''{bad'' = JSONDecodeError"
    using not_huge_number_text(3) by (simp add: loads_table_def person_text_def)
  show "loads_table huge_number_text = OtherError" by (simp add: loads_table_def)
  show "person_text \<noteq> []" by (simp add: person_text_def)
qed

lemma simple_person_parsed:
  "parse_by_url_type ''profile'' (JObj [(''@type'', JStr ''Person''), (''name'', JStr ''Ada'')])
     = ([(''name'', JStr ''Ada''), (''job_title'', JArr []), (''description'', JStr ''''),
         (''url'', JStr '''')], ''profile'')"
  by (simp add: parse_by_url_type_def parse_profile_json_ld_def dict_has_def dict_get_def
      profile_direct_def profile_basic_def profile_image_def profile_followers_def dict_set_def)

lemma empty_object_parsed: "parse_by_url_type ''profile'' (JObj []) = ([], ''profile'')"
  by (simp add: parse_by_url_type_def parse_profile_json_ld_def dict_has_def dict_get_def)

lemma empty_first_extracted:
  "extract_json_ld_data loads_table empty_first_document ''profile'' =
     \<lparr>found = True, raw_json = Some (JObj []), parsed_data = [],
      data_type = Some ''profile''\<rparr>"
  by (simp add: extract_json_ld_data_def empty_first_document_def loads_table_simps
      empty_object_parsed json_ld_init_def)

lemma huge_number_first_extracted:
  "extract_json_ld_data loads_table huge_number_first_document ''profile'' = json_ld_init"
  by (simp add: extract_json_ld_data_def huge_number_first_document_def loads_table_simps
      huge_number_text_facts)

text \<open>
  Claim C2 as stated fails, in two ways. When the first script parses to the empty object,
  which yields an empty parse, the extractor uses it and ends the scan; the Person node of
  the second script, which would yield a non-empty parse, is not consulted. When the first
  script is an integer of 4301 digits, on which \<^verbatim>\<open>json.loads\<close> raises a \<^verbatim>\<open>ValueError\<close> that
  is not a \<^verbatim>\<open>JSONDecodeError\<close>, the scan ends there with \<^verbatim>\<open>found\<close> false, and the Person node
  of the second script, which parses, is not consulted either.
\<close>

theorem first_parse_empty_counterexample:
  "ld_json_scripts empty_first_document = [Some ''{}'', Some person_text] \<and>
   loads_table ''{}'' = Loaded (JObj []) \<and>
   loads_table person_text
     = Loaded (JObj [(''@type'', JStr ''Person''), (''name'', JStr ''Ada'')]) \<and>
   fst (parse_by_url_type ''profile'' (JObj [(''@type'', JStr ''Person''), (''name'', JStr ''Ada'')]))
     \<noteq> [] \<and>
   extract_json_ld_data loads_table empty_first_document ''profile'' =
     \<lparr>found = True, raw_json = Some (JObj []), parsed_data = [],
      data_type = Some ''profile''\<rparr> \<and>
   ld_json_scripts huge_number_first_document = [Some huge_number_text, Some person_text] \<and>
   loads_table huge_number_text = OtherError \<and>
   \<not> found (extract_json_ld_data loads_table huge_number_first_document ''profile'')"
proof -
  have a: "ld_json_scripts empty_first_document = [Some ''{}'', Some person_text]"
    by (simp add: empty_first_document_def)
  have b: "ld_json_scripts huge_number_first_document
             = [Some huge_number_text, Some person_text]"
    by (simp add: huge_number_first_document_def)
  have c: "\<not> found json_ld_init" by (simp add: json_ld_init_def)
  show ?thesis
    using a b c
    by (simp add: loads_table_simps simple_person_parsed empty_first_extracted
        huge_number_first_extracted)
qed

text \<open>
  Claim C2, amended. The extractor consults one block: scripts without text, with an empty
  text or with a text on which \<^verbatim>\<open>json.loads\<close> raises \<^verbatim>\<open>JSONDecodeError\<close> are passed over and
  the scan continues. The first script that is not passed over ends the scan. When its
  text parses, it is recorded and given to the parser of the URL type, whether or not the
  parse it yields is empty, and whatever scripts follow it. When \<^verbatim>\<open>json.loads\<close> raises
  another exception on it (a \<^verbatim>\<open>ValueError\<close> on an integer of more than 4300 digits, a
  \<^verbatim>\<open>RecursionError\<close> on deep nesting), the extractor returns its initial result with
  \<^verbatim>\<open>found\<close> false, whatever scripts follow it. When every script is passed over, the
  extractor returns its initial result with \<^verbatim>\<open>found\<close> false. The extractor is a total
  function of the document and raises in none of these cases.
\<close>

theorem first_parsing_script_used:
  "(ld_json_scripts html = pre @ Some t # rest \<and>
    (\<forall>s\<in>set pre. \<forall>x. s = Some x \<longrightarrow> x = [] \<or> loads x = JSONDecodeError) \<and>
    t \<noteq> [] \<and> loads t = Loaded j \<longrightarrow>
      extract_json_ld_data loads html url_type =
        \<lparr>found = True, raw_json = Some j,
         parsed_data = fst (parse_by_url_type url_type j),
         data_type = Some (snd (parse_by_url_type url_type j))\<rparr>)
   \<and>
   (ld_json_scripts html = pre @ Some t # rest \<and>
    (\<forall>s\<in>set pre. \<forall>x. s = Some x \<longrightarrow> x = [] \<or> loads x = JSONDecodeError) \<and>
    t \<noteq> [] \<and> loads t = OtherError \<longrightarrow>
      extract_json_ld_data loads html url_type = json_ld_init \<and>
      \<not> found (extract_json_ld_data loads html url_type))
   \<and>
   ((\<forall>s\<in>set (ld_json_scripts html).
       \<forall>x. s = Some x \<longrightarrow> x = [] \<or> loads x = JSONDecodeError) \<longrightarrow>
      extract_json_ld_data loads html url_type = json_ld_init \<and>
      \<not> found (extract_json_ld_data loads html url_type))"
  using extract_first_parsing[of html pre t rest loads j url_type]
    extract_other_error[of html pre t rest loads url_type]
    extract_none_parsing[of html loads url_type]
  by (simp add: json_ld_init_def)

text \<open>
  A script without text, an empty script and a malformed script are passed over, the
  Person node after them is used and the script after it is ignored; an integer of 4301
  digits ends the scan before the Person node that follows it; a document whose scripts do
  not parse gives \<^verbatim>\<open>found\<close> false.
\<close>

theorem first_parsing_script_used_witness:
  "(ld_json_scripts malformed_first_document
      = [None, Some '''', Some ''{bad''] @ Some person_text # [Some ''{}''] \<and>
    loads_table ''{bad'' = JSONDecodeError \<and>
    person_text \<noteq> [] \<and>
    loads_table person_text
      = Loaded (JObj [(''@type'', JStr ''Person''), (''name'', JStr ''Ada'')]) \<and>
    found (extract_json_ld_data loads_table malformed_first_document ''profile'') \<and>
    map_of (parsed_data (extract_json_ld_data loads_table malformed_first_document ''profile''))
       ''name'' = Some (JStr ''Ada''))
   \<and>
   (ld_json_scripts huge_number_first_document = [] @ Some huge_number_text # [Some person_text] \<and>
    huge_number_text \<noteq> [] \<and>
    loads_table huge_number_text = OtherError \<and>
    extract_json_ld_data loads_table huge_number_first_document ''profile'' = json_ld_init)
   \<and>
   (ld_json_scripts malformed_only_document = [None, Some ''{bad''] \<and>
    \<not> found (extract_json_ld_data loads_table malformed_only_document ''profile''))"
proof -
  have a: "ld_json_scripts malformed_first_document
      = [None, Some '''', Some ''{bad''] @ Some person_text # [Some ''{}'']"
    by (simp add: malformed_first_document_def)
  have b: "\<forall>s\<in>set [None, Some '''', Some ''{bad''].
        \<forall>x. s = Some x \<longrightarrow> x = [] \<or> loads_table x = JSONDecodeError"
    by (simp add: loads_table_simps)
  have c: "\<forall>s\<in>set (ld_json_scripts malformed_only_document).
        \<forall>x. s = Some x \<longrightarrow> x = [] \<or> loads_table x = JSONDecodeError"
    by (simp add: malformed_only_document_def loads_table_simps)
  have h: "ld_json_scripts huge_number_first_document
      = [] @ Some huge_number_text # [Some person_text]"
    by (simp add: huge_number_first_document_def)
  have h': "\<forall>s\<in>set []. \<forall>x. s = Some x \<longrightarrow> x = [] \<or> loads_table x = JSONDecodeError"
    by simp
  note t = first_parsing_script_used[of malformed_first_document
      "[None, Some '''', Some ''{bad'']" person_text "[Some ''{}'']" loads_table
      "JObj [(''@type'', JStr ''Person''), (''name'', JStr ''Ada'')]" "''profile''"]
  note v = first_parsing_script_used[of huge_number_first_document
      "[]" huge_number_text "[Some person_text]" loads_table
      "JObj [(''@type'', JStr ''Person''), (''name'', JStr ''Ada'')]" "''profile''"]
  note u = first_parsing_script_used[of malformed_only_document
      "[None, Some '''', Some ''{bad'']" person_text "[Some ''{}'']" loads_table
      "JObj [(''@type'', JStr ''Person''), (''name'', JStr ''Ada'')]" "''profile''"]
  have r1: "extract_json_ld_data loads_table malformed_first_document ''profile'' =
        \<lparr>found = True,
         raw_json = Some (JObj [(''@type'', JStr ''Person''), (''name'', JStr ''Ada'')]),
         parsed_data = fst (parse_by_url_type ''profile''
                              (JObj [(''@type'', JStr ''Person''), (''name'', JStr ''Ada'')])),
         data_type = Some (snd (parse_by_url_type ''profile''
                              (JObj [(''@type'', JStr ''Person''), (''name'', JStr ''Ada'')])))\<rparr>"
    using conjunct1[OF t] a b loads_table_simps(2,5) by blast
  have r2: "\<not> found (extract_json_ld_data loads_table malformed_only_document ''profile'')"
    using conjunct2[OF conjunct2[OF u]] c by blast
  have r3: "extract_json_ld_data loads_table huge_number_first_document ''profile''
              = json_ld_init"
    using conjunct1[OF conjunct2[OF v]] h h' huge_number_text_facts(1) loads_table_simps(4)
    by blast
  have d: "ld_json_scripts malformed_only_document = [None, Some ''{bad'']"
    by (simp add: malformed_only_document_def)
  show ?thesis
    using a d h r2 r3 huge_number_text_facts(1)
    by (simp add: r1 simple_person_parsed loads_table_simps)
qed

subsection \<open>C1: structured fields survive the merge\<close>

lemma keys_in_empty: "keys_in []"
  by (simp add: keys_in_def)

lemma keys_in_set: "keys_in d \<Longrightarrow> k \<in> entity_keys \<Longrightarrow> keys_in (dict_set d k v)"
  by (auto simp: keys_in_def dict_set_def distinct_update dom_update)

lemma entity_keys_mem:
  "''name'' \<in> entity_keys" "''job_title'' \<in> entity_keys" "''description'' \<in> entity_keys"
  "''url'' \<in> entity_keys" "''image_url'' \<in> entity_keys" "''location'' \<in> entity_keys"
  "''country'' \<in> entity_keys" "''works_for'' \<in> entity_keys" "''followers'' \<in> entity_keys"
  "''slogan'' \<in> entity_keys" "''logo_url'' \<in> entity_keys" "''address'' \<in> entity_keys"
  "''employee_count'' \<in> entity_keys" "''headline'' \<in> entity_keys"
  "''article_body'' \<in> entity_keys" "''date_published'' \<in> entity_keys"
  "''comment_count'' \<in> entity_keys" "''author'' \<in> entity_keys"
  "''author_followers'' \<in> entity_keys" "''comments'' \<in> entity_keys"
  "''likes'' \<in> entity_keys" "''comments_count'' \<in> entity_keys"
  "''date_modified'' \<in> entity_keys" "''type'' \<in> entity_keys" "''context'' \<in> entity_keys"
  "''id'' \<in> entity_keys" "''datePublished'' \<in> entity_keys"
  by (simp_all add: entity_keys_def)

lemma entity_keys_not_supplementary:
  "k \<in> entity_keys \<Longrightarrow>
   k \<notin> {''og_title'', ''og_description'', ''og_image'', ''og_url'', ''og_type'',
          ''twitter_title'', ''twitter_description'', ''twitter_image'',
          ''page_title'', ''page_description''} \<and> k \<noteq> ''username''"
  by (auto simp: entity_keys_def)

lemmas keys_in_intros = keys_in_empty keys_in_set entity_keys_mem

lemma keys_in_run_stmts:
  "(\<And>s d'. s \<in> set ss \<Longrightarrow> keys_in d' \<Longrightarrow> keys_in (fst (s d'))) \<Longrightarrow> keys_in d \<Longrightarrow>
   keys_in (fst (run_stmts ss d))"
proof (induction ss arbitrary: d)
  case Nil
  then show ?case by simp
next
  case (Cons s ss)
  have a: "keys_in (fst (s d))" using Cons.prems by simp
  have b: "keys_in (fst (run_stmts ss (fst (s d))))"
    using Cons.IH[of "fst (s d)"] Cons.prems(1) a by simp
  show ?case using a b by (auto split: prod.splits option.splits)
qed

lemma keys_in_profile_basic: "keys_in d \<Longrightarrow> keys_in (profile_basic node d)"
  by (simp add: profile_basic_def Let_def keys_in_intros)

lemma keys_in_profile_image: "keys_in d \<Longrightarrow> keys_in (profile_image node d)"
  by (simp add: profile_image_def keys_in_intros split: option.splits json.splits)

lemma keys_in_profile_address: "keys_in d \<Longrightarrow> keys_in (profile_address node d)"
  by (simp add: profile_address_def keys_in_intros split: option.splits json.splits)

lemma keys_in_profile_works_for: "keys_in d \<Longrightarrow> keys_in (fst (profile_works_for node d))"
  by (simp add: profile_works_for_def keys_in_intros split: option.splits json.splits sum.splits)

lemma keys_in_profile_followers: "keys_in d \<Longrightarrow> keys_in (profile_followers node d)"
  by (simp add: profile_followers_def keys_in_intros split: option.splits json.splits)

lemma keys_in_profile_graph_item: "keys_in d \<Longrightarrow> keys_in (fst (profile_graph_item item d))"
  unfolding profile_graph_item_def
  by (rule keys_in_run_stmts)
     (auto simp: keys_in_profile_basic keys_in_profile_image keys_in_profile_address
        keys_in_profile_works_for keys_in_profile_followers)

lemma keys_in_profile_graph_loop: "keys_in d \<Longrightarrow> keys_in (fst (profile_graph_loop items d))"
  by (induction items d rule: profile_graph_loop.induct)
     (simp_all add: keys_in_profile_graph_item)

lemma keys_in_parse_profile: "keys_in (parse_profile_json_ld j)"
proof (cases j)
  case (JObj jd)
  then show ?thesis
    by (simp add: parse_profile_json_ld_def profile_direct_def keys_in_empty
        keys_in_profile_graph_loop keys_in_profile_basic keys_in_profile_image
        keys_in_profile_followers split: sum.splits)
qed (simp_all add: parse_profile_json_ld_def keys_in_empty)

lemma keys_in_company_basic: "keys_in d \<Longrightarrow> keys_in (company_basic node d)"
  by (simp add: company_basic_def Let_def keys_in_intros)

lemma keys_in_company_logo: "keys_in d \<Longrightarrow> keys_in (company_logo node d)"
  by (simp add: company_logo_def keys_in_intros split: option.splits json.splits)

lemma keys_in_company_address: "keys_in d \<Longrightarrow> keys_in (company_address node d)"
  by (simp add: company_address_def keys_in_intros split: option.splits json.splits)

lemma keys_in_company_employees: "keys_in d \<Longrightarrow> keys_in (company_employees node d)"
  by (simp add: company_employees_def keys_in_intros split: option.splits json.splits)

lemma keys_in_company_graph_loop: "keys_in d \<Longrightarrow> keys_in (fst (company_graph_loop items d))"
  by (induction items d rule: company_graph_loop.induct)
     (simp_all add: company_graph_item_def keys_in_company_basic keys_in_company_logo
        keys_in_company_address keys_in_company_employees)

lemma keys_in_parse_company: "keys_in (parse_company_json_ld j)"
proof (cases j)
  case (JObj jd)
  then show ?thesis
    by (simp add: parse_company_json_ld_def company_direct_def keys_in_empty
        keys_in_company_graph_loop keys_in_company_basic keys_in_company_logo
        keys_in_company_employees split: sum.splits)
qed (simp_all add: parse_company_json_ld_def keys_in_empty)

lemma keys_in_post_basic: "keys_in d \<Longrightarrow> keys_in (post_basic node d)"
  by (simp add: post_basic_def Let_def keys_in_intros)

lemma keys_in_post_author: "keys_in d \<Longrightarrow> keys_in (fst (post_author node d))"
  by (simp add: post_author_def post_author_followers_def keys_in_intros
      split: option.splits json.splits sum.splits)

lemma keys_in_post_comments: "keys_in d \<Longrightarrow> keys_in (fst (post_comments node d))"
  by (simp add: post_comments_def keys_in_intros split: option.splits json.splits sum.splits)

lemma keys_in_interaction_loop: "keys_in d \<Longrightarrow> keys_in (fst (interaction_loop xs d))"
  by (induction xs d rule: interaction_loop.induct)
     (auto simp: keys_in_intros split: sum.splits)

lemma keys_in_interaction_statistics:
  "keys_in d \<Longrightarrow> keys_in (fst (interaction_statistics node d))"
  by (simp add: interaction_statistics_def keys_in_interaction_loop
      split: option.splits json.splits)

lemma keys_in_parse_post: "keys_in (parse_post_json_ld j)"
proof (cases j)
  case (JObj jd)
  show ?thesis
  proof (cases "dict_get jd ''@type'' JNull = JStr ''DiscussionForumPosting''")
    case True
    have "keys_in (fst (run_stmts [\<lambda>pd. (post_basic jd pd, None), post_author jd,
             post_comments jd, interaction_statistics jd] []))"
      by (rule keys_in_run_stmts)
         (auto simp: keys_in_post_basic keys_in_post_author keys_in_post_comments
            keys_in_interaction_statistics keys_in_empty)
    then show ?thesis using True JObj by (simp only: parse_post_typed)
  next
    case False
    then show ?thesis using JObj by (simp add: parse_post_untyped keys_in_empty)
  qed
qed (simp_all add: parse_post_json_ld_def keys_in_empty)

lemma keys_in_newsletter_basic: "keys_in d \<Longrightarrow> keys_in (newsletter_basic node d)"
  by (simp add: newsletter_basic_def Let_def keys_in_intros)

lemma keys_in_newsletter_image: "keys_in d \<Longrightarrow> keys_in (newsletter_image node d)"
  by (simp add: newsletter_image_def keys_in_intros split: option.splits json.splits)

lemma keys_in_newsletter_author: "keys_in d \<Longrightarrow> keys_in (newsletter_author node d)"
  by (simp add: newsletter_author_def newsletter_author_followers_def keys_in_intros
      split: option.splits json.splits)

lemma keys_in_parse_newsletter: "keys_in (parse_newsletter_json_ld j)"
proof (cases j)
  case (JObj jd)
  show ?thesis
  proof (cases "dict_get jd ''@type'' JNull = JStr ''Article''")
    case True
    then show ?thesis using JObj
      by (simp add: parse_newsletter_typed keys_in_interaction_statistics
          keys_in_newsletter_author keys_in_newsletter_image keys_in_newsletter_basic
          keys_in_empty)
  next
    case False
    then show ?thesis using JObj by (simp add: parse_newsletter_untyped keys_in_empty)
  qed
qed (simp_all add: parse_newsletter_json_ld_def keys_in_empty)

lemma keys_in_generic_common:
  "set keys \<subseteq> entity_keys \<Longrightarrow> keys_in d \<Longrightarrow> keys_in (generic_common keys node d)"
  by (induction keys node d rule: generic_common.induct)
     (auto simp: keys_in_set split: option.splits)

lemma keys_in_generic_image: "keys_in d \<Longrightarrow> keys_in (generic_image node d)"
  by (simp add: generic_image_def keys_in_intros split: option.splits json.splits)

lemma keys_in_parse_generic: "keys_in (parse_generic_json_ld j)"
proof (cases j)
  case (JObj jd)
  let ?d3 = "dict_set (dict_set (dict_set [] ''type'' (dict_get jd ''@type'' (JStr '''')))
               ''context'' (dict_get jd ''@context'' (JStr '''')))
               ''id'' (dict_get jd ''@id'' (JStr ''''))"
  let ?keys = "[''name'', ''description'', ''url'', ''headline'', ''datePublished'']"
  have sub: "set ?keys \<subseteq> entity_keys"
    by (simp add: entity_keys_mem)
  have "keys_in ?d3" by (simp add: keys_in_intros)
  then have "keys_in (generic_common ?keys jd ?d3)"
    by (rule keys_in_generic_common[OF sub])
  then have "keys_in (generic_image jd (generic_common ?keys jd ?d3))"
    by (rule keys_in_generic_image)
  then show ?thesis using JObj
    by (simp add: parse_generic_json_ld_def Let_def del: generic_common.simps)
qed (simp_all add: parse_generic_json_ld_def keys_in_empty)

lemma keys_in_parse_by_url_type: "keys_in (fst (parse_by_url_type url_type j))"
  by (simp add: parse_by_url_type_def keys_in_parse_profile keys_in_parse_company
      keys_in_parse_post keys_in_parse_newsletter keys_in_parse_generic)

lemma map_of_dict_update:
  "distinct (map fst e) \<Longrightarrow>
   map_of (dict_update d e) k = (case map_of e k of Some v \<Rightarrow> Some v | None \<Rightarrow> map_of d k)"
proof (induction e arbitrary: d)
  case Nil
  then show ?case by (simp add: dict_update_def)
next
  case (Cons kv e)
  have step: "dict_update d (kv # e) = dict_update (dict_set d (fst kv) (snd kv)) e"
    by (simp add: dict_update_def)
  have ih: "map_of (dict_update (dict_set d (fst kv) (snd kv)) e) k =
      (case map_of e k of Some v \<Rightarrow> Some v
       | None \<Rightarrow> map_of (dict_set d (fst kv) (snd kv)) k)"
    using Cons.IH[of "dict_set d (fst kv) (snd kv)"] Cons.prems by simp
  have fresh: "map_of e (fst kv) = None"
    using Cons.prems by (simp add: map_of_eq_None_iff)
  show ?case
    unfolding step ih using fresh
    by (cases kv) (auto simp: map_of_dict_set split: option.splits)
qed

lemma map_of_seed:
  "found jl \<Longrightarrow> keys_in (parsed_data jl) \<Longrightarrow>
   map_of (seed_json_ld jl) k = map_of (parsed_data jl) k"
  by (simp add: seed_json_ld_def keys_in_def map_of_dict_update split: option.splits)

lemma keys_in_scripts_loop:
  "keys_in (parsed_data jl) \<Longrightarrow> keys_in (parsed_data (scripts_loop loads url_type ss jl))"
  by (induction loads url_type ss jl rule: scripts_loop.induct)
     (auto simp: keys_in_parse_by_url_type split: loads_result.splits)

lemma keys_in_extract: "keys_in (parsed_data (extract_json_ld_data loads html url_type))"
  by (simp add: extract_json_ld_data_def keys_in_scripts_loop json_ld_init_def keys_in_empty)

lemma parsed_data_scripts_loop:
  "\<not> found (scripts_loop loads url_type ss jl) \<Longrightarrow>
   parsed_data (scripts_loop loads url_type ss jl) = parsed_data jl"
  by (induction loads url_type ss jl rule: scripts_loop.induct)
     (auto split: loads_result.splits if_splits)

lemma parsed_data_not_found:
  "\<not> found (extract_json_ld_data loads html url_type) \<Longrightarrow>
   parsed_data (extract_json_ld_data loads html url_type) = []"
  using parsed_data_scripts_loop[of loads url_type "ld_json_scripts html" json_ld_init]
  by (simp add: extract_json_ld_data_def json_ld_init_def split: if_splits)

lemma combine_found:
  "found jl \<Longrightarrow>
   combine_data_sources jl md url_type page_url =
     username_backfill url_type page_url
       (add_page md (add_twitter md (add_open_graph md (seed_json_ld jl))))"
  by (simp add: combine_data_sources_def newsletter_fallback_off)

lemma map_of_page_description:
  "map_of (add_page md d) ''page_description'' = Some (JStr (description md))"
  by (simp add: add_page_def map_of_dict_set)

lemma map_of_og_description:
  "open_graph md \<noteq> [] \<Longrightarrow>
   map_of (add_page md (add_twitter md (add_open_graph md d))) ''og_description''
     = Some (bucket_get (open_graph md) ''og:description'')"
  by (simp add: map_of_add_page map_of_add_twitter add_open_graph_def Let_def map_of_dict_set)

text \<open>
  Claim C1. For the result of the structured-data extractor on any document, every field
  of the parsed entity has the same value in the combined record, whatever the meta data,
  the URL type and the document URL: the meta-tag values go under the keys \<^verbatim>\<open>og_*\<close>,
  \<^verbatim>\<open>twitter_*\<close>, \<^verbatim>\<open>page_title\<close> and \<^verbatim>\<open>page_description\<close>, which no parser stores, and the
  newsletter fallback, the only step that writes entity keys from meta tags, runs only when
  no structured data was found and nothing was seeded. The combined record holds the page
  description, and the social-preview description when that bucket is not empty, next to
  the entity's own fields.
\<close>

theorem structured_fields_survive:
  assumes "jl = extract_json_ld_data loads html url_type"
    and "map_of (parsed_data jl) k = Some v"
  shows "found jl \<and>
         map_of (combine_data_sources jl md url_type' page_url) k = Some v \<and>
         map_of (combine_data_sources jl md url_type' page_url) ''page_description''
           = Some (JStr (description md)) \<and>
         (open_graph md \<noteq> [] \<longrightarrow>
            map_of (combine_data_sources jl md url_type' page_url) ''og_description''
              = Some (bucket_get (open_graph md) ''og:description''))"
proof -
  have f: "found jl"
  proof (rule ccontr)
    assume "\<not> found jl"
    then have "parsed_data jl = []" unfolding assms(1) by (rule parsed_data_not_found)
    with assms(2) show False by simp
  qed
  have ki: "keys_in (parsed_data jl)" unfolding assms(1) by (rule keys_in_extract)
  have "k \<in> fst ` set (parsed_data jl)"
    using assms(2) by (metis domI dom_map_of_conv_image_fst)
  then have k: "k \<in> entity_keys" using ki by (auto simp: keys_in_def)
  note nk = entity_keys_not_supplementary[OF k]
  have "map_of (combine_data_sources jl md url_type' page_url) k = map_of (seed_json_ld jl) k"
    using nk by (simp only: combine_found[OF f] map_of_username_backfill map_of_supplement
        simp_thms)
  then have a: "map_of (combine_data_sources jl md url_type' page_url) k = Some v"
    using assms(2) by (simp add: map_of_seed[OF f ki])
  have b: "map_of (combine_data_sources jl md url_type' page_url) ''page_description''
           = Some (JStr (description md))"
    by (simp add: combine_found[OF f] map_of_username_backfill map_of_page_description)
  have c: "open_graph md \<noteq> [] \<Longrightarrow>
            map_of (combine_data_sources jl md url_type' page_url) ''og_description''
              = Some (bucket_get (open_graph md) ''og:description'')"
    by (simp add: combine_found[OF f] map_of_username_backfill map_of_og_description)
  show ?thesis using f a b c by blast
qed

lemma described_json_ld:
  "extract_json_ld_data described_loads described_document ''profile'' =
     \<lparr>found = True, raw_json = Some (JObj described_person),
      parsed_data = [(''name'', JStr ''Ada''), (''job_title'', JArr []),
                     (''description'', JStr ''Engineer''), (''url'', JStr '''')],
      data_type = Some ''profile''\<rparr>"
proof -
  have l: "described_loads described_text = Loaded (JObj described_person)"
    and n: "described_text \<noteq> []"
    by (simp_all add: described_loads_def described_text_def)
  have p: "parse_by_url_type ''profile'' (JObj described_person) =
     ([(''name'', JStr ''Ada''), (''job_title'', JArr []),
       (''description'', JStr ''Engineer''), (''url'', JStr '''')], ''profile'')"
    by (simp add: parse_by_url_type_def parse_profile_json_ld_def described_person_def
        dict_has_def dict_get_def profile_direct_def profile_basic_def profile_image_def
        profile_followers_def dict_set_def)
  show ?thesis
    by (simp add: extract_json_ld_data_def described_document_def l n p json_ld_init_def)
qed

lemma described_meta:
  "extract_meta_data described_document =
     \<lparr>open_graph = [(''og:description'', ''Preview'')], twitter = [],
      other_meta = [(''description'', ''Head'')], title = ''Ada | LinkedIn'',
      description = ''Head''\<rparr>"
  by (simp add: described_document_def extract_meta_data_def meta_step_def meta_name_def
      description_tag_def)

text \<open>
  On the described profile page the entity's description, the page description and the
  social-preview description are all in the combined record, each under its own key.
\<close>

theorem structured_fields_survive_witness:
  "map_of (parsed_data (extract_json_ld_data described_loads described_document ''profile''))
     ''description'' = Some (JStr ''Engineer'') \<and>
   open_graph (extract_meta_data described_document) \<noteq> [] \<and>
   map_of (combine_data_sources
             (extract_json_ld_data described_loads described_document ''profile'')
             (extract_meta_data described_document) ''profile''
             ''https://www.linkedin.com/in/ada/'') ''description''
     = Some (JStr ''Engineer'') \<and>
   map_of (combine_data_sources
             (extract_json_ld_data described_loads described_document ''profile'')
             (extract_meta_data described_document) ''profile''
             ''https://www.linkedin.com/in/ada/'') ''page_description''
     = Some (JStr ''Head'') \<and>
   map_of (combine_data_sources
             (extract_json_ld_data described_loads described_document ''profile'')
             (extract_meta_data described_document) ''profile''
             ''https://www.linkedin.com/in/ada/'') ''og_description''
     = Some (JStr ''Preview'')"
proof -
  have h: "map_of (parsed_data (extract_json_ld_data described_loads described_document
             ''profile'')) ''description'' = Some (JStr ''Engineer'')"
    by (simp add: described_json_ld)
  have og: "open_graph (extract_meta_data described_document) \<noteq> []"
    and d: "description (extract_meta_data described_document) = ''Head''"
    and b: "bucket_get (open_graph (extract_meta_data described_document)) ''og:description''
             = JStr ''Preview''"
    by (simp_all add: described_meta bucket_get_def)
  note t = structured_fields_survive[OF refl h, of "extract_meta_data described_document"
      "''profile''" "''https://www.linkedin.com/in/ada/''"]
  show ?thesis using t h og by (simp only: d b simp_thms)
qed

end
